theory Spec2Isabelle
  imports Complex_Main "HOL-Library.Multiset"
begin

section \<open>The bed probe of Marlin (module/probe.cpp)\<close>

text \<open>
  The development embeds the deploy/stow state machine (\<^verbatim>\<open>Probe::set_deployed\<close>), the single
  descent (\<^verbatim>\<open>Probe::probe_down_to_z\<close>) and the multi-sample acquisition
  (\<^verbatim>\<open>Probe::run_z_probe\<close>) of \<^verbatim>\<open>src/Marlin/src/module/probe.cpp\<close>.

  Conventions of the model:
  \<^item> a C \<^verbatim>\<open>float\<close> that holds a height is a \<^typ>\<open>real\<close>: rounding is not modelled. The one
    non-numeric value the code returns, \<^verbatim>\<open>NAN\<close>, is a constructor of the result type;
  \<^item> a preprocessor option is a field of the record \<open>config\<close>; an \<^verbatim>\<open>#if\<close> is an \<open>if\<close>;
  \<^item> a call into another module (motion, endstops, UI, serial) is an \<open>action\<close> appended to the
    trace of the state, in program order; what such a call reads from the hardware is taken
    from an oracle indexed by the number of reads made so far;
  \<^item> the \<^verbatim>\<open>uint8_t\<close> loop counters are natural numbers, which is what they are in the builds
    with \<^verbatim>\<open>TOTAL_PROBING \<le> 255\<close> (beyond that the counter of the sample loop wraps and the
    loop does not end); the \<^verbatim>\<open>int8_t\<close> counter of the sorted insertion is an integer with
    its wrap-around written out, since it leaves its range from \<^verbatim>\<open>TOTAL_PROBING = 130\<close> on.
\<close>

subsection \<open>Build configuration\<close>

datatype probe_kind =
    FixMounted | NozzleAsProbe | Solenoid | MagLev | Sled | BLTouch | ZServo
  | TouchMI | AllenKey | MagMounted | RackAndPinion | Sensorless | BDSensor

record config =
  kind :: probe_kind
  PAUSE_BEFORE_DEPLOY_STOW :: bool
  PROBE_TRIGGERED_WHEN_STOWED_TEST :: bool
  PREHEAT_BEFORE_PROBING :: bool
  PROBE_TARE :: bool
  PROBE_TARE_ONLY_WHILE_INACTIVE :: bool
  HAS_DELTA_SENSORLESS_PROBING :: bool
  MEASURE_BACKLASH_WHEN_PROBING :: bool
  Z_CLEARANCE_BETWEEN_PROBES :: real
  Z_CLEARANCE_DEPLOY_PROBE :: real
  Z_CLEARANCE_MULTI_PROBE :: real
  Z_PROBE_LOW_POINT :: real
  Z_PROBE_FEEDRATE_FAST :: real
  Z_PROBE_FEEDRATE_SLOW :: real
  TOTAL_PROBING :: nat
  EXTRA_PROBING :: nat
  MULTIPLE_PROBING :: nat

text \<open>
  \<^verbatim>\<open>TOTAL_PROBING\<close> is derived from \<^verbatim>\<open>MULTIPLE_PROBING\<close> and \<^verbatim>\<open>EXTRA_PROBING\<close> in a header
  outside this module, so the three counts are separate fields here; a property that needs
  \<open>TOTAL_PROBING = MULTIPLE_PROBING + EXTRA_PROBING\<close> assumes it. A build without multiple
  probing has \<open>TOTAL_PROBING \<le> 1\<close>.

  The option tests of the source, over the probe kind:
\<close>

definition FIX_MOUNTED_PROBE :: "config \<Rightarrow> bool" where
  "FIX_MOUNTED_PROBE cfg = (kind cfg = FixMounted)"

definition NOZZLE_AS_PROBE :: "config \<Rightarrow> bool" where
  "NOZZLE_AS_PROBE cfg = (kind cfg = NozzleAsProbe)"

definition Z_PROBE_SLED :: "config \<Rightarrow> bool" where
  "Z_PROBE_SLED cfg = (kind cfg = Sled)"

definition Z_PROBE_ALLEN_KEY :: "config \<Rightarrow> bool" where
  "Z_PROBE_ALLEN_KEY cfg = (kind cfg = AllenKey)"

definition BLTOUCH :: "config \<Rightarrow> bool" where
  "BLTOUCH cfg = (kind cfg = BLTouch)"

text \<open>\<^verbatim>\<open>MMM_TO_MMS\<close>: a feedrate in mm/min as mm/s.\<close>

definition MMM_TO_MMS :: "real \<Rightarrow> real" where
  "MMM_TO_MMS f = f / 60"

definition z_probe_fast_mm_s :: "config \<Rightarrow> real" where
  "z_probe_fast_mm_s cfg = MMM_TO_MMS (Z_PROBE_FEEDRATE_FAST cfg)"

subsection \<open>Calls into other modules\<close>

datatype action =
    DoZClearance real
  | DoBlockingMoveToZ real real
  | ReturnToOldXY
  | ProbeTriggered bool
  | ManualPrompt bool
  | Actuate probe_kind bool
  | EnableZProbe bool
  | HitOnPurpose
  | SerialErrorMsg string
  | SerialEcho string
  | LcdAlertMessage string
  | PreheatForProbing bool
  | TarePulse
  | MeasureBacklash
  | Stop

subsection \<open>Deploy and stow\<close>

text \<open>
  What \<^verbatim>\<open>set_deployed\<close> reads and writes: the endstop module's \<^verbatim>\<open>z_probe_enabled\<close>, the probe's
  \<^verbatim>\<open>offset.z\<close>, the run state of the firmware (\<^verbatim>\<open>IsRunning()\<close>), the answer of
  \<^verbatim>\<open>homing_needed_error\<close>, the number of \<^verbatim>\<open>PROBE_TRIGGERED()\<close> reads made, and the trace.
\<close>

record driver =
  z_probe_enabled :: bool
  offset_z :: real
  running :: bool
  homing_needed :: bool
  reads :: nat
  trace :: "action list"

definition emit :: "action \<Rightarrow> driver \<Rightarrow> driver" where
  "emit a s = s\<lparr>trace := trace s @ [a]\<rparr>"

text \<open>
  \<^verbatim>\<open>
  void Probe::do_z_raise(const float z_raise) {
    float z_dest = z_raise;
    if (offset.z < 0) z_dest -= offset.z;
    do_z_clearance(z_dest);
  }
  \<close>
\<close>

definition z_raise_dest :: "real \<Rightarrow> driver \<Rightarrow> real" where
  "z_raise_dest z_raise s = (if offset_z s < 0 then z_raise - offset_z s else z_raise)"

definition do_z_raise :: "real \<Rightarrow> driver \<Rightarrow> driver" where
  "do_z_raise z_raise s = emit (DoZClearance (z_raise_dest z_raise s)) s"

text \<open>
  \<^verbatim>\<open>probe_specific_action(deploy)\<close>: with \<^verbatim>\<open>PAUSE_BEFORE_DEPLOY_STOW\<close> the early preheat
  of a deploy is started (\<^verbatim>\<open>preheat_for_probing(0, PROBING_BED_TEMP, true)\<close>) and the operator
  is prompted and waited for; then the \<^verbatim>\<open>#if\<close> chain over the probe kind actuates the
  hardware (for the solenoid, with \<^verbatim>\<open>HAS_SOLENOID_1\<close>). The kinds outside the chain
  (fix-mounted, nozzle, sensorless, BD sensor) have nothing to actuate. The polling loop of
  \<^verbatim>\<open>PAUSE_PROBE_DEPLOY_WHEN_TRIGGERED\<close> is not part of the model.
\<close>

definition has_actuator :: "probe_kind \<Rightarrow> bool" where
  "has_actuator k = (k \<in> {Solenoid, MagLev, Sled, BLTouch, ZServo, TouchMI, AllenKey,
                           MagMounted, RackAndPinion})"

definition probe_specific_action :: "config \<Rightarrow> bool \<Rightarrow> driver \<Rightarrow> driver" where
  "probe_specific_action cfg deploy s =
     (let s0 = (if PAUSE_BEFORE_DEPLOY_STOW cfg \<and> PREHEAT_BEFORE_PROBING cfg \<and> deploy
                then emit (PreheatForProbing True) s else s);
          s1 = (if PAUSE_BEFORE_DEPLOY_STOW cfg then emit (ManualPrompt deploy) s0 else s0)
      in if has_actuator (kind cfg) then emit (Actuate (kind cfg) deploy) s1 else s1)"

text \<open>
  Modelled from the spec: \<^verbatim>\<open>stop()\<close> lives in MarlinCore; the fatal stop is a one-way
  transition, so the firmware is not running afterwards.
\<close>

definition stop :: "driver \<Rightarrow> driver" where
  "stop s = (emit Stop s)\<lparr>running := False\<rparr>"

text \<open>
  \<^verbatim>\<open>probe_error_stop()\<close>: an error line on the serial port, then \<^verbatim>\<open>stop()\<close>. The line is
  put together from string macros of another header; the trace records it as \<open>STOP\<close>.
\<close>

definition probe_error_stop :: "driver \<Rightarrow> driver" where
  "probe_error_stop s = stop (emit (SerialErrorMsg ''STOP'') s)"

text \<open>
  Modelled from the spec: \<^verbatim>\<open>endstops.enable_z_probe(onoff)\<close> lives in the endstop module; it
  switches the Z-probe channel and with it the flag \<^verbatim>\<open>z_probe_enabled\<close>.
\<close>

definition enable_z_probe :: "bool \<Rightarrow> driver \<Rightarrow> driver" where
  "enable_z_probe onoff s = (emit (EnableZProbe onoff) s)\<lparr>z_probe_enabled := onoff\<rparr>"

text \<open>
  \<^verbatim>\<open>PROBE_TRIGGERED()\<close>: the live level of the probe input, the next answer of the oracle.
  The read is recorded in the trace with its answer.
\<close>

definition read_trigger :: "(nat \<Rightarrow> bool) \<Rightarrow> driver \<Rightarrow> bool \<times> driver" where
  "read_trigger PROBE_TRIGGERED s =
     (PROBE_TRIGGERED (reads s),
      (emit (ProbeTriggered (PROBE_TRIGGERED (reads s))) s)\<lparr>reads := Suc (reads s)\<rparr>)"

text \<open>
  \<^verbatim>\<open>
  #if EITHER(FIX_MOUNTED_PROBE, NOZZLE_AS_PROBE) && DISABLED(PAUSE_BEFORE_DEPLOY_STOW)
    const bool z_raise_wanted = deploy;
  #else
    constexpr bool z_raise_wanted = true;
  #endif
  \<close>
\<close>

definition z_raise_wanted :: "config \<Rightarrow> bool \<Rightarrow> bool" where
  "z_raise_wanted cfg deploy =
     (if (FIX_MOUNTED_PROBE cfg \<or> NOZZLE_AS_PROBE cfg) \<and> \<not> PAUSE_BEFORE_DEPLOY_STOW cfg
      then deploy else True)"

text \<open>The tail of \<^verbatim>\<open>set_deployed\<close>: preheat on deploy, back to the old XY, switch the channel.\<close>

definition finish_deploy :: "config \<Rightarrow> bool \<Rightarrow> driver \<Rightarrow> bool \<times> driver" where
  "finish_deploy cfg deploy s =
     (let s1 = (if PREHEAT_BEFORE_PROBING cfg \<and> deploy then emit (PreheatForProbing False) s else s);
          s2 = emit ReturnToOldXY s1
      in (False, enable_z_probe deploy s2))"

text \<open>
  The block under \<^verbatim>\<open>PROBE_TRIGGERED_WHEN_STOWED_TEST\<close>: actuate only if the trigger level asks
  for it, then read the level again; unchanged means failure.
\<close>

definition tested_deploy :: "config \<Rightarrow> (nat \<Rightarrow> bool) \<Rightarrow> bool \<Rightarrow> driver \<Rightarrow> bool \<times> driver" where
  "tested_deploy cfg PROBE_TRIGGERED deploy s =
     (let (t1, s1) = read_trigger PROBE_TRIGGERED s;
          s2 = (if t1 = deploy
                then probe_specific_action cfg deploy
                       (if \<not> deploy then enable_z_probe False s1 else s1)
                else s1);
          (t2, s3) = read_trigger PROBE_TRIGGERED s2
      in if t2 = deploy
         then (True, stop (if running s3
                           then emit (LcdAlertMessage ''Err: ZPROBE'')
                                  (emit (SerialErrorMsg ''Z-Probe failed'') s3)
                           else s3))
         else finish_deploy cfg deploy s3)"

text \<open>
  \<^verbatim>\<open>
  #if EITHER(Z_PROBE_SLED, Z_PROBE_ALLEN_KEY)
    if (homing_needed_error(...)) { probe_error_stop(); return true; }
  #endif
  \<close>
\<close>

definition homing_needed_error :: "config \<Rightarrow> driver \<Rightarrow> bool" where
  "homing_needed_error cfg s = ((Z_PROBE_SLED cfg \<or> Z_PROBE_ALLEN_KEY cfg) \<and> homing_needed s)"

text \<open>\<^verbatim>\<open>bool Probe::set_deployed(const bool deploy)\<close>; the result \<open>True\<close> is failure.\<close>

definition set_deployed :: "config \<Rightarrow> (nat \<Rightarrow> bool) \<Rightarrow> bool \<Rightarrow> driver \<Rightarrow> bool \<times> driver" where
  "set_deployed cfg PROBE_TRIGGERED deploy s =
     (if z_probe_enabled s = deploy then (False, s)
      else
        let s1 = (if z_raise_wanted cfg deploy
                  then do_z_raise (max (Z_CLEARANCE_BETWEEN_PROBES cfg) (Z_CLEARANCE_DEPLOY_PROBE cfg)) s
                  else s)
        in if homing_needed_error cfg s1
           then (True, probe_error_stop s1)
           else if PROBE_TRIGGERED_WHEN_STOWED_TEST cfg
           then tested_deploy cfg PROBE_TRIGGERED deploy s1
           else finish_deploy cfg deploy (probe_specific_action cfg deploy s1))"

text \<open>The actions a call adds to the trace.\<close>

definition added :: "driver \<Rightarrow> driver \<Rightarrow> action list" where
  "added s s' = drop (length (trace s)) (trace s')"

fun is_raise :: "action \<Rightarrow> bool" where
  "is_raise (DoZClearance z) = True"
| "is_raise a = False"

subsection \<open>The probing cycle: state and hardware\<close>

datatype endstop = X_MAX | Y_MAX | Z_MAX | Z_MIN_PROBE

text \<open>
  What \<^verbatim>\<open>run_z_probe\<close> reads and writes: \<^verbatim>\<open>current_position.z\<close>, \<^verbatim>\<open>offset.z\<close>,
  \<^verbatim>\<open>axis_is_trusted(Z_AXIS)\<close>, the sensorless adjustments (\<^verbatim>\<open>offset_sensorless_adj\<close> with its
  fields \<^verbatim>\<open>a\<close>, \<^verbatim>\<open>b\<close>, \<^verbatim>\<open>c\<close>, and \<^verbatim>\<open>largest_sensorless_adj\<close>), \<^verbatim>\<open>bltouch.high_speed_mode\<close>,
  the number of hardware interactions so far, and the journal of the calls made.
\<close>

record prober =
  current_z :: real
  probe_offset_z :: real
  axis_trusted_z :: bool
  adj_a :: real
  adj_b :: real
  adj_c :: real
  largest_sensorless_adj :: real
  high_speed_mode :: bool
  tick :: nat
  journal :: "action list"

text \<open>
  The answers of the hardware, one per interaction: the probe activation switch
  (\<^verbatim>\<open>endstops.probe_switch_activated()\<close>), the latched endstop bits
  (\<^verbatim>\<open>endstops.trigger_state()\<close>), the endstop bits of \<^verbatim>\<open>endstops.state()\<close>, the Z the
  steppers were interrupted at (\<^verbatim>\<open>set_current_from_steppers_for_axis(Z_AXIS)\<close>), whether
  \<^verbatim>\<open>bltouch.deploy()\<close> or \<^verbatim>\<open>bltouch.stow()\<close> report an error, and the Z that
  \<^verbatim>\<open>backlash.measure_with_probe()\<close> leaves.
\<close>

record hardware =
  probe_switch_activated :: "nat \<Rightarrow> bool"
  trigger_state :: "nat \<Rightarrow> endstop set"
  endstop_state :: "nat \<Rightarrow> endstop set"
  stepper_z :: "nat \<Rightarrow> real"
  bltouch_deploy_fails :: "nat \<Rightarrow> bool"
  bltouch_stow_fails :: "nat \<Rightarrow> bool"
  backlash_z :: "nat \<Rightarrow> real"

text \<open>The value of a C \<^verbatim>\<open>float\<close> that \<^verbatim>\<open>run_z_probe\<close> returns.\<close>

datatype zfloat = NaN | Height real

definition jot :: "action \<Rightarrow> prober \<Rightarrow> prober" where
  "jot a s = s\<lparr>journal := journal s @ [a]\<rparr>"

text \<open>
  Modelled from the spec: \<^verbatim>\<open>do_blocking_move_to_z\<close> lives in the motion module; the move is
  blocking and leaves the logical Z at its destination.
\<close>

definition do_blocking_move_to_z :: "real \<Rightarrow> real \<Rightarrow> prober \<Rightarrow> prober" where
  "do_blocking_move_to_z z fr_mm_s s = (jot (DoBlockingMoveToZ z fr_mm_s) s)\<lparr>current_z := z\<rparr>"

subsection \<open>One descent\<close>

text \<open>
  \<^verbatim>\<open>
  void Probe::refresh_largest_sensorless_adj() {
    largest_sensorless_adj = -3;  // A reference away from any real probe height
    if (TEST(endstops.state(), X_MAX)) NOLESS(largest_sensorless_adj, offset_sensorless_adj.a);
    if (TEST(endstops.state(), Y_MAX)) NOLESS(largest_sensorless_adj, offset_sensorless_adj.b);
    if (TEST(endstops.state(), Z_MAX)) NOLESS(largest_sensorless_adj, offset_sensorless_adj.c);
  }
  \<close>
  \<^verbatim>\<open>NOLESS(v, n)\<close> is \<^verbatim>\<open>if (v < n) v = n\<close>.
\<close>

definition NOLESS :: "real \<Rightarrow> real \<Rightarrow> real" where
  "NOLESS v n = (if v < n then n else v)"

definition refresh_largest_sensorless_adj :: "endstop set \<Rightarrow> prober \<Rightarrow> prober" where
  "refresh_largest_sensorless_adj state s =
     (let l0 = - 3;
          l1 = (if X_MAX \<in> state then NOLESS l0 (adj_a s) else l0);
          l2 = (if Y_MAX \<in> state then NOLESS l1 (adj_b s) else l1);
          l3 = (if Z_MAX \<in> state then NOLESS l2 (adj_c s) else l2)
      in s\<lparr>largest_sensorless_adj := l3\<rparr>)"

text \<open>
  \<^verbatim>\<open>bool Probe::probe_down_to_z(z, fr_mm_s)\<close>; the result \<open>True\<close> is ``the probe failed to
  trigger''. In order: the BLTouch deploy of the low-speed mode, the move, the trigger
  decision, the refresh of the sensorless adjustment, the BLTouch stow, then
  \<^verbatim>\<open>endstops.hit_on_purpose()\<close> and the Z of the steppers. The heater, stallGuard and
  quiet-probing calls around the move touch nothing the result depends on and are left out.
\<close>

definition probe_triggered :: "config \<Rightarrow> endstop set \<Rightarrow> bool" where
  "probe_triggered cfg bits =
     (if HAS_DELTA_SENSORLESS_PROBING cfg
      then bits \<inter> {X_MAX, Y_MAX, Z_MAX} \<noteq> {}
      else Z_MIN_PROBE \<in> bits)"

definition probe_down_to_z ::
    "config \<Rightarrow> hardware \<Rightarrow> real \<Rightarrow> real \<Rightarrow> prober \<Rightarrow> bool \<times> prober" where
  "probe_down_to_z cfg hw z fr_mm_s s =
     (let n = tick s; s0 = s\<lparr>tick := Suc n\<rparr>
      in if BLTOUCH cfg \<and> \<not> high_speed_mode s0 \<and> bltouch_deploy_fails hw n then (True, s0)
         else
           let s1 = do_blocking_move_to_z z fr_mm_s s0;
               triggered = probe_triggered cfg (trigger_state hw n);
               s2 = (if HAS_DELTA_SENSORLESS_PROBING cfg \<and> triggered
                     then refresh_largest_sensorless_adj (endstop_state hw n) s1 else s1)
           in if BLTOUCH cfg \<and> triggered \<and> \<not> high_speed_mode s2 \<and> bltouch_stow_fails hw n
              then (True, s2)
              else (\<not> triggered, (jot HitOnPurpose s2)\<lparr>current_z := stepper_z hw n\<rparr>))"

text \<open>
  \<^verbatim>\<open>bool Probe::tare()\<close>; the result \<open>True\<close> is ``the tare could not be completed''.
  \<^verbatim>\<open>PROBE_TARE_ONLY_WHILE_INACTIVE\<close> stands for
  \<^verbatim>\<open>BOTH(PROBE_ACTIVATION_SWITCH, PROBE_TARE_ONLY_WHILE_INACTIVE)\<close>.
\<close>

definition tare :: "config \<Rightarrow> hardware \<Rightarrow> prober \<Rightarrow> bool \<times> prober" where
  "tare cfg hw s =
     (let n = tick s; s0 = s\<lparr>tick := Suc n\<rparr>
      in if PROBE_TARE_ONLY_WHILE_INACTIVE cfg \<and> probe_switch_activated hw n
         then (True, jot (SerialEcho ''Cannot tare an active probe'') s0)
         else (False, jot HitOnPurpose (jot TarePulse (jot (SerialEcho ''Taring probe'') s0))))"

text \<open>\<^verbatim>\<open>TERN0(PROBE_TARE, tare())\<close>: the tare if the build has one, else \<^verbatim>\<open>false\<close>.\<close>

definition tare_if_enabled :: "config \<Rightarrow> hardware \<Rightarrow> prober \<Rightarrow> bool \<times> prober" where
  "tare_if_enabled cfg hw s = (if PROBE_TARE cfg then tare cfg hw s else (False, s))"

subsection \<open>The sample acquisition\<close>

text \<open>
  The lambda \<^verbatim>\<open>try_to_probe\<close> of \<^verbatim>\<open>run_z_probe\<close> (its label is only printed):
  \<^verbatim>\<open>
    if (TERN0(PROBE_TARE, tare())) return true;
    const bool probe_fail = probe_down_to_z(z_probe_low_point, fr_mm_s),
               early_fail = (scheck && current_position.z > -offset.z + clearance);
    return probe_fail || early_fail;
  \<close>
\<close>

definition try_to_probe ::
    "config \<Rightarrow> hardware \<Rightarrow> real \<Rightarrow> real \<Rightarrow> bool \<Rightarrow> real \<Rightarrow> prober \<Rightarrow> bool \<times> prober" where
  "try_to_probe cfg hw z_probe_low_point fr_mm_s scheck clearance s =
     (let (tare_fail, s1) = tare_if_enabled cfg hw s
      in if tare_fail then (True, s1)
         else
           let (probe_fail, s2) = probe_down_to_z cfg hw z_probe_low_point fr_mm_s s1;
               early_fail = (scheck \<and> current_z s2 > - probe_offset_z s2 + clearance)
           in (probe_fail \<or> early_fail, s2))"

text \<open>
  \<^verbatim>\<open>
  const float z_probe_low_point = axis_is_trusted(Z_AXIS) ? -offset.z + Z_PROBE_LOW_POINT : -10.0;
  \<close>
\<close>

definition z_probe_low_point :: "config \<Rightarrow> prober \<Rightarrow> real" where
  "z_probe_low_point cfg s =
     (if axis_trusted_z s then - probe_offset_z s + Z_PROBE_LOW_POINT cfg else - 10)"

text \<open>\<^verbatim>\<open>DIFF_TERN(HAS_DELTA_SENSORLESS_PROBING, current_position.z, largest_sensorless_adj)\<close>\<close>

definition sampled_z :: "config \<Rightarrow> prober \<Rightarrow> real" where
  "sampled_z cfg s =
     (if HAS_DELTA_SENSORLESS_PROBING cfg then current_z s - largest_sensorless_adj s
      else current_z s)"

text \<open>\<^verbatim>\<open>backlash.measure_with_probe()\<close> raises the probe off the bed; the Z it leaves is read.\<close>

definition measure_with_probe :: "hardware \<Rightarrow> prober \<Rightarrow> prober" where
  "measure_with_probe hw s =
     (jot MeasureBacklash s)\<lparr>current_z := backlash_z hw (tick s), tick := Suc (tick s)\<rparr>"

text \<open>
  The head of the block of the slow probe, up to the sample:
  \<^verbatim>\<open>
      if (TERN0(PROBE_TARE, tare())) return true;
      if (try_to_probe(PSTR("SLOW"), z_probe_low_point, MMM_TO_MMS(Z_PROBE_FEEDRATE_SLOW),
                       sanity_check, Z_CLEARANCE_MULTI_PROBE) ) return NAN;
      TERN_(MEASURE_BACKLASH_WHEN_PROBING, backlash.measure_with_probe());
      const float z = DIFF_TERN(HAS_DELTA_SENSORLESS_PROBING, current_position.z, largest_sensorless_adj);
  \<close>
  \<open>Inl\<close> is a \<^verbatim>\<open>return\<close> out of \<^verbatim>\<open>run_z_probe\<close>; \<^verbatim>\<open>return true\<close> from a function that returns
  \<^verbatim>\<open>float\<close> returns 1.0.
\<close>

definition slow_probe ::
    "config \<Rightarrow> hardware \<Rightarrow> bool \<Rightarrow> real \<Rightarrow> prober \<Rightarrow> (zfloat + real) \<times> prober" where
  "slow_probe cfg hw sanity_check low s =
     (let (tare_fail, s1) = tare_if_enabled cfg hw s
      in if tare_fail then (Inl (Height 1), s1)
         else
           let (fail, s2) = try_to_probe cfg hw low (MMM_TO_MMS (Z_PROBE_FEEDRATE_SLOW cfg))
                              sanity_check (Z_CLEARANCE_MULTI_PROBE cfg) s1
           in if fail then (Inl NaN, s2)
              else
                let s3 = (if MEASURE_BACKLASH_WHEN_PROBING cfg then measure_with_probe hw s2
                          else s2)
                in (Inr (sampled_z cfg s3), s3))"

subsection \<open>Sorted insertion of a sample\<close>

text \<open>
  \<^verbatim>\<open>
        LOOP_LE_N(i, p) {                            // for (uint8_t i = 0; i <= p; ++i)
          if (i == p || probes[i] > z) {
            for (int8_t m = p; --m >= i;) probes[m + 1] = probes[m];
            probes[i] = z;
            break;
          }
        }
  \<close>
  The array \<^verbatim>\<open>float probes[TOTAL_PROBING]\<close> is a list of that length. The counter \<^verbatim>\<open>m\<close> of
  the inner loop is an \<^verbatim>\<open>int8_t\<close>: the conversion of \<^verbatim>\<open>p\<close> and every \<^verbatim>\<open>--m\<close> wrap into
  -128..127, and \<^verbatim>\<open>--m >= i\<close> compares as \<^verbatim>\<open>int\<close>. \<open>shift_up i m\<close> is the loop from the counter
  value \<open>m\<close> on; it starts at \<open>int8_t p\<close>.
\<close>

definition int8_t :: "int \<Rightarrow> int" where
  "int8_t x = (x + 128) mod 256 - 128"

function shift_up :: "nat \<Rightarrow> int \<Rightarrow> real list \<Rightarrow> real list" where
  "shift_up i m probes =
     (let m' = int8_t (m - 1)
      in if int i \<le> m' then shift_up i m' (probes[nat (m' + 1) := probes ! nat m'])
         else probes)"
  by pat_completeness auto
termination
proof (relation "measure (\<lambda>(i, m, probes). nat (m mod 256))")
  show "wf (measure (\<lambda>(i, m, probes). nat (m mod 256)))" by simp
next
  fix i :: nat and m :: int and probes :: "real list" and m' :: int
  assume m': "m' = int8_t (m - 1)" and le: "int i \<le> m'"
  define r where "r = (m + 127) mod 256"
  define q where "q = (m + 127) div 256"
  have "m - 1 + 128 = m + 127" by simp
  then have eq: "m' = r - 128" by (simp only: m' int8_t_def r_def)
  with le have r: "128 \<le> r" by simp
  have r2: "r < 256" by (simp add: r_def)
  have "m + 127 = 256 * q + r"
    unfolding r_def q_def by (rule mult_div_mod_eq [symmetric])
  then have "m = (r - 127) + 256 * q" by simp
  then have "m mod 256 = (r - 127) mod 256"
    by (simp only: mod_mult_self2)
  also have "\<dots> = r - 127" using r r2 by simp
  finally have "m mod 256 = r - 127" .
  moreover have "(r - 128) mod 256 = r - 128"
    using r r2 by simp
  ultimately have "m' mod 256 < m mod 256" using eq by simp
  moreover have "0 \<le> m' mod 256" by simp
  ultimately show "((i, m', probes[nat (m' + 1) := probes ! nat m']), (i, m, probes))
               \<in> measure (\<lambda>(i, m, probes). nat (m mod 256))"
    by simp
qed

function insert_probe :: "nat \<Rightarrow> nat \<Rightarrow> real \<Rightarrow> real list \<Rightarrow> real list" where
  "insert_probe i p z probes =
     (if i \<le> p
      then (if i = p \<or> probes ! i > z
            then (shift_up i (int8_t (int p)) probes)[i := z]
            else insert_probe (Suc i) p z probes)
      else probes)"
  by pat_completeness auto
termination
  by (relation "measure (\<lambda>(i, p, z, probes). Suc p - i)") auto

subsection \<open>The sample loops\<close>

text \<open>
  With \<^verbatim>\<open>EXTRA_PROBING > 0\<close> the loop is \<^verbatim>\<open>for (uint8_t p = 0; p < TOTAL_PROBING; p++)\<close>: the
  slow probe, the insertion of the sample into \<^verbatim>\<open>probes\<close>, and, after all but the last
  probe, the raise by \<^verbatim>\<open>Z_CLEARANCE_MULTI_PROBE\<close> above the sample. The counter \<^verbatim>\<open>p\<close> is a
  natural number: with \<^verbatim>\<open>TOTAL_PROBING \<le> 255\<close> it stays below 256 and never wraps. The
  insertion receives it as the \<^verbatim>\<open>int8_t\<close> start value of its inner counter.
\<close>

function sorted_samples ::
    "config \<Rightarrow> hardware \<Rightarrow> bool \<Rightarrow> real \<Rightarrow> nat \<Rightarrow> real list \<Rightarrow> prober
       \<Rightarrow> (zfloat + real list) \<times> prober" where
  "sorted_samples cfg hw sanity_check low p probes s =
     (if p < TOTAL_PROBING cfg
      then (case slow_probe cfg hw sanity_check low s of
              (Inl r, s1) \<Rightarrow> (Inl r, s1)
            | (Inr z, s1) \<Rightarrow>
                sorted_samples cfg hw sanity_check low (Suc p) (insert_probe 0 p z probes)
                  (if p < TOTAL_PROBING cfg - 1
                   then do_blocking_move_to_z (z + Z_CLEARANCE_MULTI_PROBE cfg)
                          (z_probe_fast_mm_s cfg) s1
                   else s1))
      else (Inr probes, s))"
  by pat_completeness auto
termination
  by (relation "measure (\<lambda>(cfg, hw, sanity_check, low, p, probes, s). TOTAL_PROBING cfg - p)")
     auto

text \<open>
  Without extra probes the loop is \<^verbatim>\<open>for (uint8_t p = TOTAL_PROBING; p--;)\<close>: the counter of
  the body runs from \<open>TOTAL_PROBING - 1\<close> down to 0, the sample is added to
  \<^verbatim>\<open>probes_z_sum\<close>, and the raise follows \<^verbatim>\<open>if (p)\<close>.
\<close>

fun summed_samples ::
    "config \<Rightarrow> hardware \<Rightarrow> bool \<Rightarrow> real \<Rightarrow> nat \<Rightarrow> real \<Rightarrow> prober
       \<Rightarrow> (zfloat + real) \<times> prober" where
  "summed_samples cfg hw sanity_check low 0 probes_z_sum s = (Inr probes_z_sum, s)"
| "summed_samples cfg hw sanity_check low (Suc p) probes_z_sum s =
     (case slow_probe cfg hw sanity_check low s of
        (Inl r, s1) \<Rightarrow> (Inl r, s1)
      | (Inr z, s1) \<Rightarrow>
          summed_samples cfg hw sanity_check low p (probes_z_sum + z)
            (if p \<noteq> 0
             then do_blocking_move_to_z (z + Z_CLEARANCE_MULTI_PROBE cfg)
                    (z_probe_fast_mm_s cfg) s1
             else s1))"

subsection \<open>The aggregation\<close>

text \<open>
  \<^verbatim>\<open>
      static constexpr int PHALF = (TOTAL_PROBING - 1) / 2;
      const float middle = probes[PHALF],
                  median = ((TOTAL_PROBING) & 1) ? middle : (middle + probes[PHALF + 1]) * 0.5f;
  \<close>
\<close>

definition PHALF :: "config \<Rightarrow> nat" where
  "PHALF cfg = (TOTAL_PROBING cfg - 1) div 2"

definition median :: "config \<Rightarrow> real list \<Rightarrow> real" where
  "median cfg probes =
     (let middle = probes ! PHALF cfg
      in if odd (TOTAL_PROBING cfg) then middle
         else (middle + probes ! (PHALF cfg + 1)) * 0.5)"

text \<open>
  \<^verbatim>\<open>
      uint8_t min_avg_idx = 0, max_avg_idx = TOTAL_PROBING - 1;
      for (uint8_t i = EXTRA_PROBING; i--;)
        if (ABS(probes[max_avg_idx] - median) > ABS(probes[min_avg_idx] - median))
          max_avg_idx--; else min_avg_idx++;
  \<close>
  One pass of the body, and the loop over the count of passes left.
\<close>

definition trim_step :: "real list \<Rightarrow> real \<Rightarrow> nat \<times> nat \<Rightarrow> nat \<times> nat" where
  "trim_step probes med r =
     (case r of (min_avg_idx, max_avg_idx) \<Rightarrow>
        if \<bar>probes ! max_avg_idx - med\<bar> > \<bar>probes ! min_avg_idx - med\<bar>
        then (min_avg_idx, max_avg_idx - 1) else (min_avg_idx + 1, max_avg_idx))"

fun trim :: "real list \<Rightarrow> real \<Rightarrow> nat \<Rightarrow> nat \<times> nat \<Rightarrow> nat \<times> nat" where
  "trim probes med 0 r = r"
| "trim probes med (Suc i) r = trim probes med i (trim_step probes med r)"

text \<open>
  \<^verbatim>\<open>
      LOOP_S_LE_N(i, min_avg_idx, max_avg_idx)    // for (i = min_avg_idx; i <= max_avg_idx; ++i)
        probes_z_sum += probes[i];
  \<close>
\<close>

definition sum_kept :: "real list \<Rightarrow> nat \<times> nat \<Rightarrow> real" where
  "sum_kept probes r = (case r of (min_avg_idx, max_avg_idx) \<Rightarrow>
     foldl (\<lambda>probes_z_sum i. probes_z_sum + probes ! i) 0 [min_avg_idx ..< Suc max_avg_idx])"

text \<open>\<^verbatim>\<open>RECIPROCAL(x)\<close> is \<^verbatim>\<open>(1.0f / (x))\<close>.\<close>

definition RECIPROCAL :: "nat \<Rightarrow> real" where
  "RECIPROCAL x = 1 / real x"

definition kept_range :: "config \<Rightarrow> real list \<Rightarrow> nat \<times> nat" where
  "kept_range cfg probes =
     trim probes (median cfg probes) (EXTRA_PROBING cfg) (0, TOTAL_PROBING cfg - 1)"

definition trimmed_mean :: "config \<Rightarrow> real list \<Rightarrow> real" where
  "trimmed_mean cfg probes =
     sum_kept probes (kept_range cfg probes) * RECIPROCAL (MULTIPLE_PROBING cfg)"

subsection \<open>\<^verbatim>\<open>Probe::run_z_probe\<close>\<close>

text \<open>
  The fast pre-positioning of the builds with \<^verbatim>\<open>TOTAL_PROBING != 2\<close> and different feedrates:
  \<^verbatim>\<open>
    const float z = Z_CLEARANCE_DEPLOY_PROBE + 5.0 + (offset.z < 0 ? -offset.z : 0);
    if (current_position.z > z) {
      if (!probe_down_to_z(z, z_probe_fast_mm_s))
        do_blocking_move_to_z(current_position.z + Z_CLEARANCE_BETWEEN_PROBES, z_probe_fast_mm_s);
    }
  \<close>
\<close>

definition fast_approach :: "config \<Rightarrow> hardware \<Rightarrow> prober \<Rightarrow> prober" where
  "fast_approach cfg hw s =
     (let z = Z_CLEARANCE_DEPLOY_PROBE cfg + 5
              + (if probe_offset_z s < 0 then - probe_offset_z s else 0)
      in if current_z s > z
         then (case probe_down_to_z cfg hw z (z_probe_fast_mm_s cfg) s of
                 (fail, s1) \<Rightarrow>
                   if \<not> fail
                   then do_blocking_move_to_z (current_z s1 + Z_CLEARANCE_BETWEEN_PROBES cfg)
                          (z_probe_fast_mm_s cfg) s1
                   else s1)
         else s)"

text \<open>
  The build with \<^verbatim>\<open>TOTAL_PROBING == 2\<close>: tare, fast probe, raise, slow probe, weighted average
  \<^verbatim>\<open>(z2 * 3.0 + first_probe_z * 2.0) * 0.2\<close>. (The insertion of \<^verbatim>\<open>EXTRA_PROBING > 0\<close> uses the
  counter of the loop, which only the builds with \<^verbatim>\<open>TOTAL_PROBING > 2\<close> have.)
\<close>

definition double_probe ::
    "config \<Rightarrow> hardware \<Rightarrow> bool \<Rightarrow> real \<Rightarrow> prober \<Rightarrow> zfloat \<times> prober" where
  "double_probe cfg hw sanity_check low s =
     (let (tare_fail, s1) = tare_if_enabled cfg hw s
      in if tare_fail then (NaN, s1)
         else
           let (fail, s2) = try_to_probe cfg hw low (z_probe_fast_mm_s cfg) sanity_check
                              (Z_CLEARANCE_BETWEEN_PROBES cfg) s1
           in if fail then (NaN, s2)
              else
                let first_probe_z = sampled_z cfg s2;
                    s3 = do_blocking_move_to_z (current_z s2 + Z_CLEARANCE_MULTI_PROBE cfg)
                           (z_probe_fast_mm_s cfg) s2
                in (case slow_probe cfg hw sanity_check low s3 of
                      (Inl r, s4) \<Rightarrow> (r, s4)
                    | (Inr z, s4) \<Rightarrow>
                        let z2 = sampled_z cfg s4
                        in (Height ((z2 * 3 + first_probe_z * 2) * 0.2), s4)))"

text \<open>
  The other builds: the pre-positioning if the feedrates differ, then the loop of
  \<^verbatim>\<open>TOTAL_PROBING > 2\<close> with its aggregation, or the single slow probe, which returns
  \<^verbatim>\<open>current_position.z\<close>. The array starts with arbitrary content; no slot is read before it
  is written.
\<close>

definition multi_probe ::
    "config \<Rightarrow> hardware \<Rightarrow> bool \<Rightarrow> real \<Rightarrow> prober \<Rightarrow> zfloat \<times> prober" where
  "multi_probe cfg hw sanity_check low s =
     (let s0 = (if Z_PROBE_FEEDRATE_FAST cfg \<noteq> Z_PROBE_FEEDRATE_SLOW cfg
                then fast_approach cfg hw s else s)
      in if TOTAL_PROBING cfg > 2
         then (if EXTRA_PROBING cfg > 0
               then (case sorted_samples cfg hw sanity_check low 0
                            (replicate (TOTAL_PROBING cfg) 0) s0 of
                       (Inl r, s1) \<Rightarrow> (r, s1)
                     | (Inr probes, s1) \<Rightarrow> (Height (trimmed_mean cfg probes), s1))
               else (case summed_samples cfg hw sanity_check low (TOTAL_PROBING cfg) 0 s0 of
                       (Inl r, s1) \<Rightarrow> (r, s1)
                     | (Inr probes_z_sum, s1) \<Rightarrow>
                         (Height (probes_z_sum * RECIPROCAL (MULTIPLE_PROBING cfg)), s1)))
         else (case slow_probe cfg hw sanity_check low s0 of
                 (Inl r, s1) \<Rightarrow> (r, s1)
               | (Inr z, s1) \<Rightarrow> (Height (current_z s1), s1)))"

text \<open>\<^verbatim>\<open>float Probe::run_z_probe(const bool sanity_check)\<close>, for a given descent floor.\<close>

definition run_z_probe_to ::
    "config \<Rightarrow> hardware \<Rightarrow> bool \<Rightarrow> real \<Rightarrow> prober \<Rightarrow> zfloat \<times> prober" where
  "run_z_probe_to cfg hw sanity_check low s =
     (if TOTAL_PROBING cfg = 2 then double_probe cfg hw sanity_check low s
      else multi_probe cfg hw sanity_check low s)"

definition run_z_probe :: "config \<Rightarrow> hardware \<Rightarrow> bool \<Rightarrow> prober \<Rightarrow> zfloat \<times> prober" where
  "run_z_probe cfg hw sanity_check s =
     run_z_probe_to cfg hw sanity_check (z_probe_low_point cfg s) s"

subsection \<open>The actions of each step of a deploy or stow\<close>

text \<open>What \<^verbatim>\<open>probe_specific_action\<close> adds to the trace.\<close>

definition actuation :: "config \<Rightarrow> bool \<Rightarrow> action list" where
  "actuation cfg deploy =
     (if PAUSE_BEFORE_DEPLOY_STOW cfg \<and> PREHEAT_BEFORE_PROBING cfg \<and> deploy
      then [PreheatForProbing True] else [])
     @ (if PAUSE_BEFORE_DEPLOY_STOW cfg then [ManualPrompt deploy] else [])
     @ (if has_actuator (kind cfg) then [Actuate (kind cfg) deploy] else [])"

text \<open>What the tail of a successful \<^verbatim>\<open>set_deployed\<close> adds.\<close>

definition finishing :: "config \<Rightarrow> bool \<Rightarrow> action list" where
  "finishing cfg deploy =
     (if PREHEAT_BEFORE_PROBING cfg \<and> deploy then [PreheatForProbing False] else [])
     @ [ReturnToOldXY, EnableZProbe deploy]"

text \<open>What the failed verification adds: the report if the firmware is running, then the stop.\<close>

definition reporting :: "bool \<Rightarrow> action list" where
  "reporting run =
     (if run then [SerialErrorMsg ''Z-Probe failed'', LcdAlertMessage ''Err: ZPROBE''] else [])
     @ [Stop]"

text \<open>The raise at the head of a call that is not a no-op.\<close>

definition clearance_raise :: "config \<Rightarrow> bool \<Rightarrow> driver \<Rightarrow> action list" where
  "clearance_raise cfg deploy s =
     (if z_raise_wanted cfg deploy
      then [DoZClearance (z_raise_dest (max (Z_CLEARANCE_BETWEEN_PROBES cfg)
                                            (Z_CLEARANCE_DEPLOY_PROBE cfg)) s)]
      else [])"

subsection \<open>The sample a pass of the trimming drops\<close>

text \<open>The index a pass removes from the kept range: the upper end if it is strictly farther
  from the median, else the lower end.\<close>

definition dropped :: "real list \<Rightarrow> real \<Rightarrow> nat \<times> nat \<Rightarrow> nat" where
  "dropped probes med r = (case r of (min_avg_idx, max_avg_idx) \<Rightarrow>
     if \<bar>probes ! max_avg_idx - med\<bar> > \<bar>probes ! min_avg_idx - med\<bar>
     then max_avg_idx else min_avg_idx)"

text \<open>
  The pass as the specification words it, for comparison: of two ends equally far from the
  median the one with the higher index goes.
\<close>

definition trim_step_as_claimed :: "real list \<Rightarrow> real \<Rightarrow> nat \<times> nat \<Rightarrow> nat \<times> nat" where
  "trim_step_as_claimed probes med r =
     (case r of (min_avg_idx, max_avg_idx) \<Rightarrow>
        if \<bar>probes ! max_avg_idx - med\<bar> \<ge> \<bar>probes ! min_avg_idx - med\<bar>
        then (min_avg_idx, max_avg_idx - 1) else (min_avg_idx + 1, max_avg_idx))"

fun trim_as_claimed :: "real list \<Rightarrow> real \<Rightarrow> nat \<Rightarrow> nat \<times> nat \<Rightarrow> nat \<times> nat" where
  "trim_as_claimed probes med 0 r = r"
| "trim_as_claimed probes med (Suc i) r =
     trim_as_claimed probes med i (trim_step_as_claimed probes med r)"

subsection \<open>The towers of a delta\<close>

text \<open>The adjustment of the tower of a max endstop (\<^verbatim>\<open>offset_sensorless_adj.a/b/c\<close>).\<close>

definition tower_adj :: "prober \<Rightarrow> endstop \<Rightarrow> real" where
  "tower_adj s e = (case e of X_MAX \<Rightarrow> adj_a s | Y_MAX \<Rightarrow> adj_b s | Z_MAX \<Rightarrow> adj_c s
                    | Z_MIN_PROBE \<Rightarrow> - 3)"

text \<open>
  The largest adjustment among the towers of a set of endstop bits, from the sentinel
  \<open>-3\<close> that \<^verbatim>\<open>refresh_largest_sensorless_adj\<close> starts with.
\<close>

definition largest_of :: "prober \<Rightarrow> endstop set \<Rightarrow> real" where
  "largest_of s bits = Max (insert (- 3) (tower_adj s ` (bits \<inter> {X_MAX, Y_MAX, Z_MAX})))"

subsection \<open>Concrete builds and states\<close>

text \<open>
  A BLTouch build with the triggered-when-stowed test, probed twice; the same build with a
  fix-mounted switch and no test; the BLTouch build without the test.
\<close>

definition bltouch_build :: config where
  "bltouch_build = \<lparr> kind = BLTouch, PAUSE_BEFORE_DEPLOY_STOW = False,
     PROBE_TRIGGERED_WHEN_STOWED_TEST = True, PREHEAT_BEFORE_PROBING = False,
     PROBE_TARE = False, PROBE_TARE_ONLY_WHILE_INACTIVE = False,
     HAS_DELTA_SENSORLESS_PROBING = False, MEASURE_BACKLASH_WHEN_PROBING = False,
     Z_CLEARANCE_BETWEEN_PROBES = 5, Z_CLEARANCE_DEPLOY_PROBE = 10, Z_CLEARANCE_MULTI_PROBE = 5,
     Z_PROBE_LOW_POINT = -2, Z_PROBE_FEEDRATE_FAST = 240, Z_PROBE_FEEDRATE_SLOW = 120,
     TOTAL_PROBING = 2, EXTRA_PROBING = 0, MULTIPLE_PROBING = 2 \<rparr>"

definition fixed_build :: config where
  "fixed_build = bltouch_build\<lparr> kind := FixMounted, PROBE_TRIGGERED_WHEN_STOWED_TEST := False \<rparr>"

definition untested_build :: config where
  "untested_build = bltouch_build\<lparr> PROBE_TRIGGERED_WHEN_STOWED_TEST := False \<rparr>"

definition stowed :: driver where
  "stowed = \<lparr> z_probe_enabled = False, offset_z = - 3 / 2, running = True,
              homing_needed = False, reads = 0, trace = [] \<rparr>"

definition deployed :: driver where
  "deployed = stowed\<lparr> z_probe_enabled := True \<rparr>"

text \<open>Trigger inputs: stuck high, and high until the first read only.\<close>

definition stuck_high :: "nat \<Rightarrow> bool" where
  "stuck_high n = True"

definition released :: "nat \<Rightarrow> bool" where
  "released n = (n = 0)"

text \<open>A machine above the bed, with the probe 1.5 mm below the nozzle.\<close>

definition bed :: prober where
  "bed = \<lparr> current_z = 10, probe_offset_z = - 3 / 2, axis_trusted_z = True,
           adj_a = 0.1, adj_b = 0.2, adj_c = - 0.05, largest_sensorless_adj = 0,
           high_speed_mode = True, tick = 0, journal = [] \<rparr>"

text \<open>A probe that triggers on every descent, at the given heights.\<close>

definition flat_bed :: "(nat \<Rightarrow> real) \<Rightarrow> hardware" where
  "flat_bed heights = \<lparr> probe_switch_activated = (\<lambda>n. False),
           trigger_state = (\<lambda>n. {Z_MIN_PROBE}),
           endstop_state = (\<lambda>n. {Z_MIN_PROBE}),
           stepper_z = heights,
           bltouch_deploy_fails = (\<lambda>n. False),
           bltouch_stow_fails = (\<lambda>n. False),
           backlash_z = (\<lambda>n. 0) \<rparr>"





text \<open>A strain gauge that is tared only while inactive, and whose switch is active.\<close>

definition tare_build :: config where
  "tare_build = bltouch_build\<lparr> kind := FixMounted, PROBE_TRIGGERED_WHEN_STOWED_TEST := False,
     PROBE_TARE := True, PROBE_TARE_ONLY_WHILE_INACTIVE := True,
     TOTAL_PROBING := 1, MULTIPLE_PROBING := 1 \<rparr>"

definition active_switch :: hardware where
  "active_switch = (flat_bed (\<lambda>n. 0))\<lparr> probe_switch_activated := (\<lambda>n. True) \<rparr>"

text \<open>The fast probe triggers at 0.30, the slow one at 0.10.\<close>

definition drifting :: "nat \<Rightarrow> real" where
  "drifting n = (if n = 0 then 0.30 else 0.10)"

text \<open>Five probes with one extra, and three probes with one extra.\<close>

definition median_build :: config where
  "median_build = fixed_build\<lparr> TOTAL_PROBING := 5, EXTRA_PROBING := 1, MULTIPLE_PROBING := 4 \<rparr>"

definition tie_build :: config where
  "tie_build = fixed_build\<lparr> TOTAL_PROBING := 3, EXTRA_PROBING := 1, MULTIPLE_PROBING := 2 \<rparr>"

text \<open>The heights of the five triggers, and of the three.\<close>

definition five_heights :: "nat \<Rightarrow> real" where
  "five_heights n = (if n = 0 then 0.10 else if n = 1 then 0.40 else if n = 2 then 0.05
                     else if n = 3 then 0.11 else 0.09)"

definition three_heights :: "nat \<Rightarrow> real" where
  "three_heights n = (if n = 0 then 1 else if n = 1 then 2 else 0)"

section \<open>Properties of deploy and stow\<close>

text \<open>What each step of \<^verbatim>\<open>set_deployed\<close> adds to the trace and leaves of the state.\<close>

lemmas build_defs = bltouch_build_def fixed_build_def untested_build_def

lemma emit_fields [simp]:
  "trace (emit a s) = trace s @ [a]"
  "reads (emit a s) = reads s"
  "running (emit a s) = running s"
  "z_probe_enabled (emit a s) = z_probe_enabled s"
  "homing_needed (emit a s) = homing_needed s"
  "offset_z (emit a s) = offset_z s"
  by (simp_all add: emit_def)

lemma stop_fields [simp]:
  "trace (stop s) = trace s @ [Stop]"
  "reads (stop s) = reads s"
  "running (stop s) = False"
  "z_probe_enabled (stop s) = z_probe_enabled s"
  by (simp_all add: stop_def)

lemma enable_z_probe_fields [simp]:
  "trace (enable_z_probe b s) = trace s @ [EnableZProbe b]"
  "reads (enable_z_probe b s) = reads s"
  "running (enable_z_probe b s) = running s"
  "z_probe_enabled (enable_z_probe b s) = b"
  by (simp_all add: enable_z_probe_def)

lemma read_trigger_fields [simp]:
  "fst (read_trigger T s) = T (reads s)"
  "trace (snd (read_trigger T s)) = trace s @ [ProbeTriggered (T (reads s))]"
  "reads (snd (read_trigger T s)) = Suc (reads s)"
  "running (snd (read_trigger T s)) = running s"
  "z_probe_enabled (snd (read_trigger T s)) = z_probe_enabled s"
  by (simp_all add: read_trigger_def)

lemma probe_specific_action_fields [simp]:
  "trace (probe_specific_action cfg d s) = trace s @ actuation cfg d"
  "reads (probe_specific_action cfg d s) = reads s"
  "running (probe_specific_action cfg d s) = running s"
  "z_probe_enabled (probe_specific_action cfg d s) = z_probe_enabled s"
  by (simp_all add: probe_specific_action_def actuation_def Let_def)

lemma do_z_raise_fields [simp]:
  "trace (do_z_raise r s) = trace s @ [DoZClearance (z_raise_dest r s)]"
  "reads (do_z_raise r s) = reads s"
  "running (do_z_raise r s) = running s"
  "z_probe_enabled (do_z_raise r s) = z_probe_enabled s"
  "homing_needed (do_z_raise r s) = homing_needed s"
  "homing_needed_error cfg (do_z_raise r s) = homing_needed_error cfg s"
  by (simp_all add: do_z_raise_def homing_needed_error_def)

lemma finish_deploy_fields [simp]:
  "fst (finish_deploy cfg d s) = False"
  "trace (snd (finish_deploy cfg d s)) = trace s @ finishing cfg d"
  "reads (snd (finish_deploy cfg d s)) = reads s"
  "running (snd (finish_deploy cfg d s)) = running s"
  "z_probe_enabled (snd (finish_deploy cfg d s)) = d"
  by (simp_all add: finish_deploy_def finishing_def Let_def)

lemma tested_deploy_result:
  "fst (tested_deploy cfg T d s) = (T (Suc (reads s)) = d)"
  by (simp add: tested_deploy_def split_def Let_def)

lemma tested_deploy_running:
  "running (snd (tested_deploy cfg T d s)) = (running s \<and> T (Suc (reads s)) \<noteq> d)"
  by (simp add: tested_deploy_def split_def Let_def)

lemma tested_deploy_enabled:
  "T (Suc (reads s)) \<noteq> d \<Longrightarrow> z_probe_enabled (snd (tested_deploy cfg T d s)) = d"
  by (simp add: tested_deploy_def split_def Let_def)

lemma tested_deploy_trace:
  "trace (snd (tested_deploy cfg T d s)) =
     trace s @ [ProbeTriggered (T (reads s))]
       @ (if T (reads s) = d
          then (if d then [] else [EnableZProbe False]) @ actuation cfg d else [])
       @ [ProbeTriggered (T (Suc (reads s)))]
       @ (if T (Suc (reads s)) = d then reporting (running s) else finishing cfg d)"
  by (simp add: tested_deploy_def split_def Let_def reporting_def)

lemma probe_error_stop_fields [simp]:
  "trace (probe_error_stop s) = trace s @ [SerialErrorMsg ''STOP'', Stop]"
  "reads (probe_error_stop s) = reads s"
  "running (probe_error_stop s) = False"
  "z_probe_enabled (probe_error_stop s) = z_probe_enabled s"
  by (simp_all add: probe_error_stop_def)

lemma added_append [simp]: "trace s' = trace s @ xs \<Longrightarrow> added s s' = xs"
  by (simp add: added_def)

text \<open>The three ways a call that is not a no-op goes on after the raise.\<close>

lemma set_deployed_unhomed:
  assumes "z_probe_enabled s \<noteq> d"
      and "homing_needed_error cfg s"
  shows "fst (set_deployed cfg T d s) = True"
    and "trace (snd (set_deployed cfg T d s)) =
           trace s @ clearance_raise cfg d s @ [SerialErrorMsg ''STOP'', Stop]"
  using assms by (simp_all add: set_deployed_def clearance_raise_def Let_def)

lemma set_deployed_tested:
  assumes "z_probe_enabled s \<noteq> d"
      and "\<not> homing_needed_error cfg s"
      and "PROBE_TRIGGERED_WHEN_STOWED_TEST cfg"
  shows "fst (set_deployed cfg T d s) = (T (Suc (reads s)) = d)"
    and "trace (snd (set_deployed cfg T d s)) =
           trace s @ clearance_raise cfg d s @ [ProbeTriggered (T (reads s))]
             @ (if T (reads s) = d
                then (if d then [] else [EnableZProbe False]) @ actuation cfg d else [])
             @ [ProbeTriggered (T (Suc (reads s)))]
             @ (if T (Suc (reads s)) = d then reporting (running s) else finishing cfg d)"
    and "running (snd (set_deployed cfg T d s)) = (running s \<and> T (Suc (reads s)) \<noteq> d)"
    and "T (Suc (reads s)) \<noteq> d \<Longrightarrow> z_probe_enabled (snd (set_deployed cfg T d s)) = d"
  using assms
  by (simp_all add: set_deployed_def clearance_raise_def Let_def tested_deploy_result
        tested_deploy_trace tested_deploy_running tested_deploy_enabled)

lemma set_deployed_untested:
  assumes "z_probe_enabled s \<noteq> d"
      and "\<not> homing_needed_error cfg s"
      and "\<not> PROBE_TRIGGERED_WHEN_STOWED_TEST cfg"
  shows "fst (set_deployed cfg T d s) = False"
    and "trace (snd (set_deployed cfg T d s)) =
           trace s @ clearance_raise cfg d s @ actuation cfg d @ finishing cfg d"
    and "reads (snd (set_deployed cfg T d s)) = reads s"
    and "z_probe_enabled (snd (set_deployed cfg T d s)) = d"
  using assms by (simp_all add: set_deployed_def clearance_raise_def Let_def)

lemmas deploy_defs =
  set_deployed_def tested_deploy_def finish_deploy_def read_trigger_def
  probe_specific_action_def has_actuator_def do_z_raise_def z_raise_dest_def
  z_raise_wanted_def emit_def stop_def probe_error_stop_def enable_z_probe_def
  homing_needed_error_def
  FIX_MOUNTED_PROBE_def NOZZLE_AS_PROBE_def Z_PROBE_SLED_def Z_PROBE_ALLEN_KEY_def

lemma quiet_tails [simp]:
  "filter is_raise (actuation cfg d) = []"
  "filter is_raise (finishing cfg d) = []"
  "filter is_raise (reporting r) = []"
  by (simp_all add: actuation_def finishing_def reporting_def)

lemma set_deployed_success:
  assumes "fst (set_deployed cfg T d s) = False"
  shows "z_probe_enabled (snd (set_deployed cfg T d s)) = d"
proof (cases "z_probe_enabled s = d")
  case True
  then show ?thesis by (simp add: set_deployed_def)
next
  case ne: False
  show ?thesis
  proof (cases "homing_needed_error cfg s")
    case True
    with ne assms show ?thesis
      using set_deployed_unhomed(1) [of s d cfg T] by simp
  next
    case nh: False
    show ?thesis
    proof (cases "PROBE_TRIGGERED_WHEN_STOWED_TEST cfg")
      case True
      with ne nh assms show ?thesis
        using set_deployed_tested(1,4) [of s d cfg T] by auto
    next
      case False
      with ne nh show ?thesis
        using set_deployed_untested(4) [of s d cfg T] by simp
    qed
  qed
qed

text \<open>
  C4, as the code has it. In every call of \<^verbatim>\<open>set_deployed\<close> that is not a no-op, exactly one
  Z raise is commanded, by \<open>max(Z_CLEARANCE_BETWEEN_PROBES, Z_CLEARANCE_DEPLOY_PROBE)\<close> through
  \<^verbatim>\<open>do_z_raise\<close>, and it is the first action of the call, so it precedes any actuation;
  the raise is skipped exactly when the probe is fix-mounted or the nozzle, the operator
  pause is not configured, and the request is a stow. On such a build a deploy still raises.
\<close>

theorem set_deployed_raise:
  assumes "z_probe_enabled s \<noteq> deploy"
  shows "filter is_raise (added s (snd (set_deployed cfg T deploy s))) =
           (if (FIX_MOUNTED_PROBE cfg \<or> NOZZLE_AS_PROBE cfg)
               \<and> \<not> PAUSE_BEFORE_DEPLOY_STOW cfg \<and> \<not> deploy
            then []
            else [DoZClearance (z_raise_dest (max (Z_CLEARANCE_BETWEEN_PROBES cfg)
                                                  (Z_CLEARANCE_DEPLOY_PROBE cfg)) s)])
         \<and> (\<exists>rest. added s (snd (set_deployed cfg T deploy s)) =
                      filter is_raise (added s (snd (set_deployed cfg T deploy s))) @ rest)"
proof -
  let ?s' = "snd (set_deployed cfg T deploy s)"
  have "\<exists>rest. trace ?s' = trace s @ clearance_raise cfg deploy s @ rest
               \<and> filter is_raise rest = []"
  proof (cases "homing_needed_error cfg s")
    case True
    with assms show ?thesis
      using set_deployed_unhomed(2) [of s deploy cfg T] by simp
  next
    case nh: False
    show ?thesis
    proof (cases "PROBE_TRIGGERED_WHEN_STOWED_TEST cfg")
      case True
      with assms nh show ?thesis
        using set_deployed_tested(2) [of s deploy cfg T] by simp
    next
      case False
      with assms nh show ?thesis
        using set_deployed_untested(2) [of s deploy cfg T] by simp
    qed
  qed
  then obtain rest where tr: "trace ?s' = trace s @ clearance_raise cfg deploy s @ rest"
    and q: "filter is_raise rest = []" by blast
  from tr have ad: "added s ?s' = clearance_raise cfg deploy s @ rest"
    by simp
  have cr: "filter is_raise (clearance_raise cfg deploy s) = clearance_raise cfg deploy s"
    by (simp add: clearance_raise_def)
  have "clearance_raise cfg deploy s =
           (if (FIX_MOUNTED_PROBE cfg \<or> NOZZLE_AS_PROBE cfg)
               \<and> \<not> PAUSE_BEFORE_DEPLOY_STOW cfg \<and> \<not> deploy
            then []
            else [DoZClearance (z_raise_dest (max (Z_CLEARANCE_BETWEEN_PROBES cfg)
                                                  (Z_CLEARANCE_DEPLOY_PROBE cfg)) s)])"
    by (simp add: clearance_raise_def z_raise_wanted_def)
  with ad cr q show ?thesis by auto
qed

text \<open>A BLTouch deploy raises to 10 + 1.5; a fix-mounted stow does not raise.\<close>

theorem set_deployed_raise_witness:
  "z_probe_enabled stowed \<noteq> True
   \<and> filter is_raise (added stowed (snd (set_deployed bltouch_build released True stowed)))
       = [DoZClearance (23 / 2)]
   \<and> z_probe_enabled deployed \<noteq> False
   \<and> filter is_raise (added deployed (snd (set_deployed fixed_build released False deployed))) = []"
proof -
  have a: "z_probe_enabled stowed \<noteq> True" by (simp add: stowed_def)
  have b: "z_probe_enabled deployed \<noteq> False" by (simp add: stowed_def deployed_def)
  show ?thesis
    using a b set_deployed_raise [OF a, of bltouch_build released]
      set_deployed_raise [OF b, of fixed_build released]
    by (simp add: build_defs FIX_MOUNTED_PROBE_def NOZZLE_AS_PROBE_def z_raise_dest_def stowed_def)
qed

text \<open>
  C4 as stated says the skip of the raise on a fix-mounted probe without operator pause
  does not depend on the request. On that build a deploy raises and a stow does not.
\<close>

theorem set_deployed_raise_counterexample:
  "kind fixed_build = FixMounted \<and> \<not> PAUSE_BEFORE_DEPLOY_STOW fixed_build
   \<and> added stowed (snd (set_deployed fixed_build released True stowed))
       = [DoZClearance (23 / 2), ReturnToOldXY, EnableZProbe True]
   \<and> added deployed (snd (set_deployed fixed_build released False deployed))
       = [ReturnToOldXY, EnableZProbe False]"
  by (simp add: deploy_defs build_defs stowed_def deployed_def released_def added_def Let_def)

text \<open>
  C7, as the code has it. Take a call of \<^verbatim>\<open>set_deployed\<close> that is not a no-op and passes the
  homing check. With \<^verbatim>\<open>PROBE_TRIGGERED_WHEN_STOWED_TEST\<close> the trigger is read, the probe is
  actuated if the level equals the request, and the trigger is read again after that; the call
  fails exactly when this second level equals the request, and then it enters the fatal stop,
  preceded by the report ``Z-Probe failed'' and the UI alert only if the firmware is running.
  Without that option the probe is actuated and the call succeeds with no read of the
  trigger, no report and no stop.
\<close>

theorem set_deployed_recheck:
  assumes "z_probe_enabled s \<noteq> deploy" and "\<not> homing_needed_error cfg s"
  shows "(PROBE_TRIGGERED_WHEN_STOWED_TEST cfg \<longrightarrow>
            fst (set_deployed cfg T deploy s) = (T (Suc (reads s)) = deploy)
          \<and> added s (snd (set_deployed cfg T deploy s)) =
              clearance_raise cfg deploy s @ [ProbeTriggered (T (reads s))]
              @ (if T (reads s) = deploy
                 then (if deploy then [] else [EnableZProbe False]) @ actuation cfg deploy
                 else [])
              @ [ProbeTriggered (T (Suc (reads s)))]
              @ (if T (Suc (reads s)) = deploy
                 then (if running s
                       then [SerialErrorMsg ''Z-Probe failed'', LcdAlertMessage ''Err: ZPROBE'']
                       else []) @ [Stop]
                 else finishing cfg deploy))
       \<and> (\<not> PROBE_TRIGGERED_WHEN_STOWED_TEST cfg \<longrightarrow>
            fst (set_deployed cfg T deploy s) = False
          \<and> added s (snd (set_deployed cfg T deploy s)) =
              clearance_raise cfg deploy s @ actuation cfg deploy @ finishing cfg deploy)"
proof (intro conjI impI)
  assume t: "PROBE_TRIGGERED_WHEN_STOWED_TEST cfg"
  from set_deployed_tested(1) [OF assms t]
  show "fst (set_deployed cfg T deploy s) = (T (Suc (reads s)) = deploy)" .
  from set_deployed_tested(2) [OF assms t, of T]
  show "added s (snd (set_deployed cfg T deploy s)) =
              clearance_raise cfg deploy s @ [ProbeTriggered (T (reads s))]
              @ (if T (reads s) = deploy
                 then (if deploy then [] else [EnableZProbe False]) @ actuation cfg deploy
                 else [])
              @ [ProbeTriggered (T (Suc (reads s)))]
              @ (if T (Suc (reads s)) = deploy
                 then (if running s
                       then [SerialErrorMsg ''Z-Probe failed'', LcdAlertMessage ''Err: ZPROBE'']
                       else []) @ [Stop]
                 else finishing cfg deploy)"
    by (simp add: reporting_def)
next
  assume t: "\<not> PROBE_TRIGGERED_WHEN_STOWED_TEST cfg"
  from set_deployed_untested(1) [OF assms t]
  show "fst (set_deployed cfg T deploy s) = False" .
  from set_deployed_untested(2) [OF assms t, of T]
  show "added s (snd (set_deployed cfg T deploy s)) =
              clearance_raise cfg deploy s @ actuation cfg deploy @ finishing cfg deploy"
    by simp
qed

text \<open>A BLTouch whose trigger stays high: failure with the test, success without it.\<close>

theorem set_deployed_recheck_witness:
  "z_probe_enabled stowed \<noteq> True \<and> \<not> homing_needed_error bltouch_build stowed
   \<and> PROBE_TRIGGERED_WHEN_STOWED_TEST bltouch_build
   \<and> fst (set_deployed bltouch_build stuck_high True stowed) = True
   \<and> added stowed (snd (set_deployed bltouch_build stuck_high True stowed)) =
       [DoZClearance (23 / 2), ProbeTriggered True, Actuate BLTouch True, ProbeTriggered True,
        SerialErrorMsg ''Z-Probe failed'', LcdAlertMessage ''Err: ZPROBE'', Stop]
   \<and> \<not> homing_needed_error untested_build stowed
   \<and> \<not> PROBE_TRIGGERED_WHEN_STOWED_TEST untested_build
   \<and> fst (set_deployed untested_build stuck_high True stowed) = False"
proof -
  have a: "z_probe_enabled stowed \<noteq> True" by (simp add: stowed_def)
  have b: "\<not> homing_needed_error bltouch_build stowed"
    by (simp add: homing_needed_error_def stowed_def)
  have c: "\<not> homing_needed_error untested_build stowed"
    by (simp add: homing_needed_error_def stowed_def)
  show ?thesis
    using a b c set_deployed_recheck [OF a b, of stuck_high]
      set_deployed_recheck [OF a c, of stuck_high]
    by (simp add: build_defs clearance_raise_def actuation_def has_actuator_def
          z_raise_wanted_def FIX_MOUNTED_PROBE_def NOZZLE_AS_PROBE_def z_raise_dest_def
          stowed_def stuck_high_def)
qed

text \<open>
  C7 as stated asks for the re-check in every call that actuates. Without
  \<^verbatim>\<open>PROBE_TRIGGERED_WHEN_STOWED_TEST\<close> a deploy actuates the BLTouch, the trigger stays equal
  to the request, and the call succeeds: no re-check, no report, no stop.
\<close>

theorem set_deployed_recheck_counterexample:
  "stuck_high 0 = True \<and> stuck_high 1 = True
   \<and> set_deployed untested_build stuck_high True stowed =
       (False, stowed\<lparr> z_probe_enabled := True,
                       trace := [DoZClearance (23 / 2), Actuate BLTouch True,
                                 ReturnToOldXY, EnableZProbe True] \<rparr>)"
  by (simp add: deploy_defs build_defs stowed_def stuck_high_def Let_def)

text \<open>
  C8, as the code has it. A call of \<^verbatim>\<open>set_deployed\<close> whose request equals the current
  \<^verbatim>\<open>z_probe_enabled\<close> returns success at once and changes nothing: no motion, no actuation,
  no read of the trigger. Hence a second deploy (or stow) after one that succeeded is a
  no-op: the two calls together leave the state the first one left.
\<close>

theorem set_deployed_idempotent:
  "(z_probe_enabled s = deploy \<longrightarrow> set_deployed cfg T deploy s = (False, s))
   \<and> (fst (set_deployed cfg T deploy s) = False \<longrightarrow>
        set_deployed cfg T deploy (snd (set_deployed cfg T deploy s))
          = (False, snd (set_deployed cfg T deploy s)))"
proof (intro conjI impI)
  assume "z_probe_enabled s = deploy"
  then show "set_deployed cfg T deploy s = (False, s)"
    by (simp add: set_deployed_def)
next
  assume "fst (set_deployed cfg T deploy s) = False"
  then have "z_probe_enabled (snd (set_deployed cfg T deploy s)) = deploy"
    by (rule set_deployed_success)
  then show "set_deployed cfg T deploy (snd (set_deployed cfg T deploy s))
          = (False, snd (set_deployed cfg T deploy s))"
    by (simp add: set_deployed_def)
qed

text \<open>A deploy of a deployed probe, and two deploys in a row of a stowed BLTouch.\<close>

theorem set_deployed_idempotent_witness:
  "z_probe_enabled deployed = True
   \<and> set_deployed bltouch_build released True deployed = (False, deployed)
   \<and> fst (set_deployed bltouch_build released True stowed) = False
   \<and> set_deployed bltouch_build released True (snd (set_deployed bltouch_build released True stowed))
       = (False, snd (set_deployed bltouch_build released True stowed))
   \<and> added stowed (snd (set_deployed bltouch_build released True stowed)) =
       [DoZClearance (23 / 2), ProbeTriggered True, Actuate BLTouch True, ProbeTriggered False,
        ReturnToOldXY, EnableZProbe True]"
proof -
  have ok: "fst (set_deployed bltouch_build released True stowed) = False"
    by (simp add: deploy_defs build_defs stowed_def released_def Let_def)
  have tr: "added stowed (snd (set_deployed bltouch_build released True stowed)) =
       [DoZClearance (23 / 2), ProbeTriggered True, Actuate BLTouch True, ProbeTriggered False,
        ReturnToOldXY, EnableZProbe True]"
    by (simp add: deploy_defs build_defs stowed_def released_def added_def Let_def)
  have en: "z_probe_enabled deployed = True"
    by (simp add: deployed_def)
  show ?thesis
    using ok en tr set_deployed_idempotent [of deployed True bltouch_build released]
      set_deployed_idempotent [of stowed True bltouch_build released]
    by simp
qed

text \<open>
  C8 as stated fails when the first call fails: with the trigger stuck high the first
  deploy ends in the fatal stop and leaves the channel off, so the second deploy is not a
  no-op: it raises, actuates and stops again.
\<close>

theorem set_deployed_twice_counterexample:
  "fst (set_deployed bltouch_build stuck_high True stowed) = True
   \<and> added (snd (set_deployed bltouch_build stuck_high True stowed))
        (snd (set_deployed bltouch_build stuck_high True
               (snd (set_deployed bltouch_build stuck_high True stowed))))
       = [DoZClearance (23 / 2), ProbeTriggered True, Actuate BLTouch True, ProbeTriggered True, Stop]"
  by (simp add: deploy_defs build_defs stowed_def stuck_high_def added_def Let_def)

text \<open>
  C10. For every call \<^verbatim>\<open>do_z_raise(r)\<close> the clearance destination handed to
  \<^verbatim>\<open>do_z_clearance\<close> is \<open>r - offset.z\<close> only when \<open>offset.z\<close> is strictly negative; when
  \<open>offset.z \<ge> 0\<close> it is exactly \<open>r\<close>: a non-negative probe Z offset adds nothing to the
  clearance height.
\<close>

theorem do_z_raise_destination:
  "added s (do_z_raise r s) = [DoZClearance (if offset_z s < 0 then r - offset_z s else r)]"
  by (simp add: added_def do_z_raise_def emit_def z_raise_dest_def)

text \<open>An offset of -1.5 adds 1.5 to a raise of 10; an offset of +1 adds nothing.\<close>

theorem do_z_raise_destination_witness:
  "added stowed (do_z_raise 10 stowed) = [DoZClearance (23 / 2)]
   \<and> added (stowed\<lparr>offset_z := 1\<rparr>) (do_z_raise 10 (stowed\<lparr>offset_z := 1\<rparr>)) = [DoZClearance 10]"
  using do_z_raise_destination [of stowed 10]
        do_z_raise_destination [of "stowed\<lparr>offset_z := 1\<rparr>" 10]
  by (simp add: stowed_def)

section \<open>Properties of the probing cycle\<close>

text \<open>What the steps of a descent leave of the state.\<close>

lemma jot_fields [simp]:
  "journal (jot a s) = journal s @ [a]"
  "current_z (jot a s) = current_z s"
  "probe_offset_z (jot a s) = probe_offset_z s"
  "largest_sensorless_adj (jot a s) = largest_sensorless_adj s"
  "tick (jot a s) = tick s"
  "high_speed_mode (jot a s) = high_speed_mode s"
  by (simp_all add: jot_def)

lemma do_blocking_move_to_z_fields [simp]:
  "journal (do_blocking_move_to_z z fr s) = journal s @ [DoBlockingMoveToZ z fr]"
  "current_z (do_blocking_move_to_z z fr s) = z"
  "probe_offset_z (do_blocking_move_to_z z fr s) = probe_offset_z s"
  "largest_sensorless_adj (do_blocking_move_to_z z fr s) = largest_sensorless_adj s"
  "tick (do_blocking_move_to_z z fr s) = tick s"
  "high_speed_mode (do_blocking_move_to_z z fr s) = high_speed_mode s"
  "adj_a (do_blocking_move_to_z z fr s) = adj_a s"
  "adj_b (do_blocking_move_to_z z fr s) = adj_b s"
  "adj_c (do_blocking_move_to_z z fr s) = adj_c s"
  by (simp_all add: do_blocking_move_to_z_def jot_def)

lemma refresh_fields [simp]:
  "journal (refresh_largest_sensorless_adj bits s) = journal s"
  "current_z (refresh_largest_sensorless_adj bits s) = current_z s"
  "probe_offset_z (refresh_largest_sensorless_adj bits s) = probe_offset_z s"
  "tick (refresh_largest_sensorless_adj bits s) = tick s"
  "high_speed_mode (refresh_largest_sensorless_adj bits s) = high_speed_mode s"
  by (simp_all add: refresh_largest_sensorless_adj_def Let_def)

lemma refresh_largest_max:
  "largest_sensorless_adj (refresh_largest_sensorless_adj bits s) =
     Max (insert (- 3) (tower_adj s ` (bits \<inter> {X_MAX, Y_MAX, Z_MAX})))"
proof -
  have img: "tower_adj s ` (bits \<inter> {X_MAX, Y_MAX, Z_MAX}) =
        (if X_MAX \<in> bits then {adj_a s} else {}) \<union> (if Y_MAX \<in> bits then {adj_b s} else {})
        \<union> (if Z_MAX \<in> bits then {adj_c s} else {})"
    by (auto simp: tower_adj_def)
  show ?thesis
    unfolding img
    by (simp add: refresh_largest_sensorless_adj_def Let_def NOLESS_def max_def)
qed

lemma probe_down_to_z_offset [simp]:
  "probe_offset_z (snd (probe_down_to_z cfg hw z fr s)) = probe_offset_z s"
  by (simp add: probe_down_to_z_def Let_def)

lemma tare_if_enabled_offset [simp]:
  "probe_offset_z (snd (tare_if_enabled cfg hw s)) = probe_offset_z s"
  by (simp add: tare_if_enabled_def tare_def Let_def)

lemma try_to_probe_offset [simp]:
  "probe_offset_z (snd (try_to_probe cfg hw low fr scheck clearance s)) = probe_offset_z s"
  by (simp add: try_to_probe_def split_def Let_def)

lemma probe_down_to_z_plain:
  assumes "\<not> BLTOUCH cfg"
  shows "fst (probe_down_to_z cfg hw z fr s) = (\<not> probe_triggered cfg (trigger_state hw (tick s)))"
    and "current_z (snd (probe_down_to_z cfg hw z fr s)) = stepper_z hw (tick s)"
    and "tick (snd (probe_down_to_z cfg hw z fr s)) = Suc (tick s)"
  using assms by (simp_all add: probe_down_to_z_def Let_def)

text \<open>
  C5. With the tare out of the way, \<^verbatim>\<open>try_to_probe\<close> reports failure exactly when
  \<^verbatim>\<open>probe_down_to_z\<close> reported no trigger, or the sanity check is on and the Z after the
  descent is above \<open>-offset.z + clearance\<close>; at the threshold itself the probe passes. The
  state it leaves is the one \<^verbatim>\<open>probe_down_to_z\<close> left.
\<close>

theorem try_to_probe_failure:
  assumes "\<not> fst (tare_if_enabled cfg hw s)"
  shows "fst (try_to_probe cfg hw low fr scheck clearance s) =
           (fst (probe_down_to_z cfg hw low fr (snd (tare_if_enabled cfg hw s)))
            \<or> (scheck \<and> current_z (snd (try_to_probe cfg hw low fr scheck clearance s))
                          > - probe_offset_z s + clearance))
         \<and> snd (try_to_probe cfg hw low fr scheck clearance s) =
             snd (probe_down_to_z cfg hw low fr (snd (tare_if_enabled cfg hw s)))"
  using assms by (simp add: try_to_probe_def split_def Let_def)

lemmas cycle_defs =
  run_z_probe_def run_z_probe_to_def double_probe_def multi_probe_def fast_approach_def
  slow_probe_def try_to_probe_def tare_if_enabled_def tare_def probe_down_to_z_def
  probe_triggered_def refresh_largest_sensorless_adj_def NOLESS_def do_blocking_move_to_z_def
  jot_def sampled_z_def measure_with_probe_def z_probe_low_point_def z_probe_fast_mm_s_def
  MMM_TO_MMS_def BLTOUCH_def

text \<open>
  With \<open>offset.z = -1.5\<close> and a clearance of 5: a trigger at 7 fails the sanity check, a
  trigger at 6.5 passes it, and a trigger at 7 passes when the check is off.
\<close>

theorem try_to_probe_failure_witness:
  "\<not> fst (tare_if_enabled fixed_build (flat_bed (\<lambda>n. 7)) bed)
   \<and> fst (try_to_probe fixed_build (flat_bed (\<lambda>n. 7)) (- 1 / 2) 2 True 5 bed) = True
   \<and> fst (try_to_probe fixed_build (flat_bed (\<lambda>n. 13 / 2)) (- 1 / 2) 2 True 5 bed) = False
   \<and> fst (try_to_probe fixed_build (flat_bed (\<lambda>n. 7)) (- 1 / 2) 2 False 5 bed) = False"
proof -
  have t: "\<not> fst (tare_if_enabled fixed_build hw bed)" for hw
    by (simp add: tare_if_enabled_def fixed_build_def bltouch_build_def)
  have nb: "\<not> BLTOUCH fixed_build"
    by (simp add: BLTOUCH_def fixed_build_def)
  have tr: "probe_triggered fixed_build {Z_MIN_PROBE}"
    by (simp add: probe_triggered_def fixed_build_def bltouch_build_def)
  have s1: "snd (tare_if_enabled fixed_build hw bed) = bed" for hw
    by (simp add: tare_if_enabled_def fixed_build_def bltouch_build_def)
  show ?thesis
    using t [of "flat_bed (\<lambda>n. 7)"]
      try_to_probe_failure [OF t, of "flat_bed (\<lambda>n. 7)" "- 1 / 2" 2 True 5]
      try_to_probe_failure [OF t, of "flat_bed (\<lambda>n. 13 / 2)" "- 1 / 2" 2 True 5]
      try_to_probe_failure [OF t, of "flat_bed (\<lambda>n. 7)" "- 1 / 2" 2 False 5]
    by (simp add: s1 probe_down_to_z_plain [OF nb] tr flat_bed_def) (simp_all add: bed_def)
qed

text \<open>
  C6. The descent floor of \<^verbatim>\<open>run_z_probe\<close> is \<open>-offset.z + Z_PROBE_LOW_POINT\<close> when the Z axis
  is trusted and exactly \<open>-10\<close> when it is not, and this is the floor all of \<^verbatim>\<open>run_z_probe\<close>
  works with.
\<close>

theorem z_probe_low_point_value:
  "z_probe_low_point cfg s =
     (if axis_trusted_z s then - probe_offset_z s + Z_PROBE_LOW_POINT cfg else - 10)
   \<and> run_z_probe cfg hw sanity_check s =
       run_z_probe_to cfg hw sanity_check
         (if axis_trusted_z s then - probe_offset_z s + Z_PROBE_LOW_POINT cfg else - 10) s"
  by (simp add: z_probe_low_point_def run_z_probe_def)

text \<open>With \<open>offset.z = -1.5\<close> and a low point of \<open>-2\<close>: \<open>-0.5\<close> if trusted, \<open>-10\<close> if not.\<close>

theorem z_probe_low_point_value_witness:
  "z_probe_low_point fixed_build bed = - 1 / 2
   \<and> z_probe_low_point fixed_build (bed\<lparr>axis_trusted_z := False\<rparr>) = - 10"
  using z_probe_low_point_value [of fixed_build bed]
    z_probe_low_point_value [of fixed_build "bed\<lparr>axis_trusted_z := False\<rparr>"]
  by (simp add: fixed_build_def bltouch_build_def bed_def)


lemma probe_down_to_z_delta:
  assumes "HAS_DELTA_SENSORLESS_PROBING cfg" and "\<not> BLTOUCH cfg"
      and "trigger_state hw (tick s) \<inter> {X_MAX, Y_MAX, Z_MAX} \<noteq> {}"
  shows "fst (probe_down_to_z cfg hw z fr s) = False"
    and "largest_sensorless_adj (snd (probe_down_to_z cfg hw z fr s)) =
           largest_of s (endstop_state hw (tick s))"
    and "adj_a (snd (probe_down_to_z cfg hw z fr s)) = adj_a s"
    and "adj_b (snd (probe_down_to_z cfg hw z fr s)) = adj_b s"
    and "adj_c (snd (probe_down_to_z cfg hw z fr s)) = adj_c s"
proof -
  let ?r = "refresh_largest_sensorless_adj (endstop_state hw (tick s))
              (do_blocking_move_to_z z fr (s\<lparr>tick := Suc (tick s)\<rparr>))"
  have s': "snd (probe_down_to_z cfg hw z fr s) =
              (jot HitOnPurpose ?r)\<lparr>current_z := stepper_z hw (tick s)\<rparr>"
    and f: "fst (probe_down_to_z cfg hw z fr s) = False"
    using assms by (simp_all add: probe_down_to_z_def probe_triggered_def Let_def)
  show "fst (probe_down_to_z cfg hw z fr s) = False" by (rule f)
  have "largest_sensorless_adj (snd (probe_down_to_z cfg hw z fr s)) = largest_sensorless_adj ?r"
    by (simp add: s')
  also have "\<dots> = largest_of s (endstop_state hw (tick s))"
    by (simp add: refresh_largest_max largest_of_def tower_adj_def [abs_def])
  finally show "largest_sensorless_adj (snd (probe_down_to_z cfg hw z fr s)) =
           largest_of s (endstop_state hw (tick s))" .
  show "adj_a (snd (probe_down_to_z cfg hw z fr s)) = adj_a s"
    "adj_b (snd (probe_down_to_z cfg hw z fr s)) = adj_b s"
    "adj_c (snd (probe_down_to_z cfg hw z fr s)) = adj_c s"
    by (simp_all add: s' jot_def refresh_largest_sensorless_adj_def Let_def)
qed

text \<open>The slow probe block of a sensorless delta without tare and backlash measurement.\<close>

lemma slow_probe_delta:
  assumes "HAS_DELTA_SENSORLESS_PROBING cfg" and "\<not> BLTOUCH cfg"
      and "trigger_state hw (tick s) \<inter> {X_MAX, Y_MAX, Z_MAX} \<noteq> {}"
      and "\<not> PROBE_TARE cfg" and "\<not> MEASURE_BACKLASH_WHEN_PROBING cfg"
      and "\<not> (sanity_check \<and> stepper_z hw (tick s) > - probe_offset_z s + Z_CLEARANCE_MULTI_PROBE cfg)"
  shows "slow_probe cfg hw sanity_check low s =
           (Inr (stepper_z hw (tick s) - largest_of s (endstop_state hw (tick s))),
            snd (probe_down_to_z cfg hw low (MMM_TO_MMS (Z_PROBE_FEEDRATE_SLOW cfg)) s))"
proof -
  let ?d = "probe_down_to_z cfg hw low (MMM_TO_MMS (Z_PROBE_FEEDRATE_SLOW cfg)) s"
  note d = probe_down_to_z_delta [OF assms(1-3), of low "MMM_TO_MMS (Z_PROBE_FEEDRATE_SLOW cfg)"]
  note c = probe_down_to_z_plain(2) [OF assms(2), of hw low "MMM_TO_MMS (Z_PROBE_FEEDRATE_SLOW cfg)" s]
  have t: "try_to_probe cfg hw low (MMM_TO_MMS (Z_PROBE_FEEDRATE_SLOW cfg)) sanity_check
             (Z_CLEARANCE_MULTI_PROBE cfg) s = (False, snd ?d)"
    using assms(4,6) d(1) c
    by (simp add: try_to_probe_def tare_if_enabled_def split_def Let_def)
  have "sampled_z cfg (snd ?d) = stepper_z hw (tick s) - largest_of s (endstop_state hw (tick s))"
    using assms(1) d(2) c by (simp add: sampled_z_def)
  with t assms(4,5) show ?thesis
    by (simp add: slow_probe_def tare_if_enabled_def Let_def)
qed



text \<open>
  A single-probe build returns \<^verbatim>\<open>current_position.z\<close> itself: the adjusted sample of the slow
  probe block is \<^verbatim>\<open>UNUSED\<close> there.
\<close>

lemma single_probe_delta:
  assumes "HAS_DELTA_SENSORLESS_PROBING cfg" and "\<not> BLTOUCH cfg"
      and "trigger_state hw (tick s) \<inter> {X_MAX, Y_MAX, Z_MAX} \<noteq> {}"
      and "\<not> PROBE_TARE cfg" and "\<not> MEASURE_BACKLASH_WHEN_PROBING cfg"
      and "\<not> (sanity_check \<and> stepper_z hw (tick s)
                 > - probe_offset_z s + Z_CLEARANCE_MULTI_PROBE cfg)"
      and "TOTAL_PROBING cfg < 2"
      and "Z_PROBE_FEEDRATE_FAST cfg = Z_PROBE_FEEDRATE_SLOW cfg
           \<or> \<not> current_z s > Z_CLEARANCE_DEPLOY_PROBE cfg + 5
                               + (if probe_offset_z s < 0 then - probe_offset_z s else 0)"
  shows "fst (multi_probe cfg hw sanity_check low s) = Height (stepper_z hw (tick s))"
proof -
  have s0: "(if Z_PROBE_FEEDRATE_FAST cfg \<noteq> Z_PROBE_FEEDRATE_SLOW cfg
             then fast_approach cfg hw s else s) = s"
    using assms(8) by (auto simp: fast_approach_def Let_def)
  have "current_z (snd (probe_down_to_z cfg hw low (MMM_TO_MMS (Z_PROBE_FEEDRATE_SLOW cfg)) s))
          = stepper_z hw (tick s)"
    by (rule probe_down_to_z_plain(2) [OF assms(2)])
  with assms(7) slow_probe_delta [OF assms(1-6), of low] show ?thesis
    by (simp add: multi_probe_def s0 Let_def)
qed








text \<open>
  C3. The claim asks for NaN when the tare of the slow probe fails. The code returns
  \<^verbatim>\<open>true\<close> there, which is 1.0: a single-probe build whose activation switch is active
  returns the height 1 and has moved nothing.
\<close>

theorem tare_failure_returns_one:
  "PROBE_TARE tare_build \<and> PROBE_TARE_ONLY_WHILE_INACTIVE tare_build
   \<and> probe_switch_activated active_switch (tick bed)
   \<and> run_z_probe tare_build active_switch True bed =
       (Height 1, bed\<lparr> tick := 1, journal := [SerialEcho ''Cannot tare an active probe''] \<rparr>)"
  by (simp add: cycle_defs tare_build_def bltouch_build_def active_switch_def flat_bed_def
        bed_def Let_def)

text \<open>
  C2. In a build with \<^verbatim>\<open>TOTAL_PROBING == 2\<close>, when the tare, the fast probe and the slow
  probe succeed, \<^verbatim>\<open>run_z_probe\<close> returns \<open>(slow * 3 + fast * 2) / 5\<close>, where \<open>fast\<close> is the
  sample after the fast descent and \<open>slow\<close> the sample after the slow one.
\<close>

theorem double_probe_weighting:
  assumes "TOTAL_PROBING cfg = 2"
      and "\<not> fst (tare_if_enabled cfg hw s)"
      and "s1 = snd (tare_if_enabled cfg hw s)"
      and "try_to_probe cfg hw (z_probe_low_point cfg s) (z_probe_fast_mm_s cfg) sanity_check
             (Z_CLEARANCE_BETWEEN_PROBES cfg) s1 = (False, s2)"
      and "slow_probe cfg hw sanity_check (z_probe_low_point cfg s)
             (do_blocking_move_to_z (current_z s2 + Z_CLEARANCE_MULTI_PROBE cfg)
                (z_probe_fast_mm_s cfg) s2) = (Inr slow_z, s4)"
  shows "run_z_probe cfg hw sanity_check s
           = (Height ((slow_z * 3 + sampled_z cfg s2 * 2) / 5), s4)
         \<and> slow_z = sampled_z cfg s4"
proof -
  have z: "slow_z = sampled_z cfg s4"
    using assms(5) by (auto simp: slow_probe_def split_def Let_def split: if_splits)
  have "run_z_probe cfg hw sanity_check s
          = (Height ((sampled_z cfg s4 * 3 + sampled_z cfg s2 * 2) * 0.2), s4)"
    using assms
    by (simp add: run_z_probe_def run_z_probe_to_def double_probe_def split_def Let_def)
  with z show ?thesis by simp
qed

text \<open>The fast probe at 0.30 and the slow probe at 0.10 give 0.18.\<close>

theorem double_probe_weighting_witness:
  "TOTAL_PROBING fixed_build = 2
   \<and> \<not> fst (tare_if_enabled fixed_build (flat_bed drifting) bed)
   \<and> fst (run_z_probe fixed_build (flat_bed drifting) True bed) = Height ((0.10 * 3 + 0.30 * 2) / 5)
   \<and> fst (run_z_probe fixed_build (flat_bed drifting) True bed) = Height 0.18"
proof -
  let ?hw = "flat_bed drifting"
  have a: "TOTAL_PROBING fixed_build = 2"
    by (simp add: fixed_build_def bltouch_build_def)
  have b: "\<not> fst (tare_if_enabled fixed_build ?hw bed)"
    by (simp add: tare_if_enabled_def fixed_build_def bltouch_build_def)
  have c: "bed = snd (tare_if_enabled fixed_build ?hw bed)"
    by (simp add: tare_if_enabled_def fixed_build_def bltouch_build_def)
  obtain s2 where d: "try_to_probe fixed_build ?hw (z_probe_low_point fixed_build bed)
             (z_probe_fast_mm_s fixed_build) True (Z_CLEARANCE_BETWEEN_PROBES fixed_build) bed
           = (False, s2)"
    and s2: "sampled_z fixed_build s2 = 0.30" "current_z s2 = 0.30" "tick s2 = 1"
      "probe_offset_z s2 = - 3 / 2"
    by (simp add: cycle_defs fixed_build_def bltouch_build_def flat_bed_def drifting_def
          bed_def Let_def)
  obtain s4 where e: "slow_probe fixed_build ?hw True (z_probe_low_point fixed_build bed)
             (do_blocking_move_to_z (current_z s2 + Z_CLEARANCE_MULTI_PROBE fixed_build)
                (z_probe_fast_mm_s fixed_build) s2) = (Inr 0.10, s4)"
    using s2
    by (simp add: cycle_defs fixed_build_def bltouch_build_def flat_bed_def drifting_def
          Let_def)
  show ?thesis
    using a b s2(1) double_probe_weighting [OF a b c d e]
    by simp
qed

subsection \<open>The sorted array and the trimmed mean\<close>

declare shift_up.simps [simp del]
declare insert_probe.simps [simp del]
declare sorted_samples.simps [simp del]

lemma int8_t_range: "- 128 \<le> x \<Longrightarrow> x \<le> 127 \<Longrightarrow> int8_t x = x"
  by (simp add: int8_t_def)

lemma int8_t_128: "int8_t 128 = - 128" "int8_t (- 129) = 127"
  by (simp_all add: int8_t_def)

lemma int8_t_pred: "0 < k \<Longrightarrow> k \<le> 128 \<Longrightarrow> int8_t (int8_t (int k) - 1) = int k - 1"
proof (cases "k = 128")
  case True
  then show ?thesis by (simp add: int8_t_128)
next
  case False
  assume "0 < k" "k \<le> 128"
  with False have "int8_t (int k) = int k" "int8_t (int k - 1) = int k - 1"
    by (simp_all add: int8_t_range)
  then show ?thesis by simp
qed

lemma int8_t_negative:
  assumes "129 \<le> p" and "p \<le> 255"
  shows "int8_t (int8_t (int p) - 1) < 0"
proof -
  have "int p + 128 = (int p - 128) + 256 * 1" by simp
  then have "(int p + 128) mod 256 = (int p - 128) mod 256"
    by (simp only: mod_mult_self2)
  also have "\<dots> = int p - 128" using assms by simp
  finally have a: "int8_t (int p) = int p - 256" by (simp add: int8_t_def)
  have "int8_t (int p - 257) = int p - 257"
    using assms by (intro int8_t_range) simp_all
  moreover have "int p - 256 - 1 = int p - 257" by simp
  ultimately have "int8_t (int8_t (int p) - 1) = int p - 257"
    by (simp only: a)
  with assms show ?thesis by simp
qed


text \<open>Up to p = 128 the counter runs through p - 1, ..., i.\<close>

lemma shift_up_unfold:
  assumes "k \<le> 128"
  shows "shift_up i (int8_t (int k)) probes =
           (if i < k then shift_up i (int8_t (int (k - 1))) (probes[k := probes ! (k - 1)])
            else probes)"
proof (cases "k = 0")
  case True
  have "int8_t (int8_t 0 - 1) = - 1" by (simp add: int8_t_def)
  with True show ?thesis
    by (simp add: shift_up.simps [of i "int8_t 0"] Let_def)
next
  case False
  with assms have p: "int8_t (int8_t (int k) - 1) = int k - 1"
    by (simp add: int8_t_pred)
  from False assms have "int8_t (int k - 1) = int k - 1"
    by (intro int8_t_range) simp_all
  with False have s: "int8_t (int (k - 1)) = int k - 1"
    by (simp add: of_nat_diff)
  from False have n: "nat (int k - 1 + 1) = k" "nat (int k - 1) = k - 1" by simp_all
  have "shift_up i (int8_t (int k)) probes =
          (if int i \<le> int k - 1
           then shift_up i (int k - 1) (probes[k := probes ! (k - 1)]) else probes)"
    by (simp add: shift_up.simps [of i "int8_t (int k)"] p n Let_def)
  moreover have "(int i \<le> int k - 1) = (i < k)" by auto
  ultimately show ?thesis by (simp only: s)
qed

text \<open>From p = 129 the counter starts negative and nothing is shifted.\<close>

lemma shift_up_wrapped:
  assumes "129 \<le> p" and "p \<le> 255"
  shows "shift_up i (int8_t (int p)) probes = probes"
  using int8_t_negative [OF assms]
  by (simp add: shift_up.simps [of i "int8_t (int p)"] Let_def)


lemma length_shift_up [simp]: "length (shift_up i m probes) = length probes"
proof (induction i m probes rule: shift_up.induct)
  case (1 i m probes)
  then show ?case by (simp add: shift_up.simps [of i m probes] Let_def)
qed

lemma shift_up_nth:
  "k \<le> 128 \<Longrightarrow> k < length probes \<Longrightarrow> j < length probes \<Longrightarrow>
   shift_up i (int8_t (int k)) probes ! j =
     (if i < j \<and> j \<le> k then probes ! (j - 1) else probes ! j)"
proof (induction k arbitrary: probes)
  case 0
  then show ?case using shift_up_unfold [of 0 i probes] by simp
next
  case (Suc k)
  show ?case
  proof (cases "i < Suc k")
    case True
    from Suc.prems have "k \<le> 128" "k < length (probes[Suc k := probes ! k])"
      "j < length (probes[Suc k := probes ! k])" by simp_all
    from Suc.IH [OF this]
    have ih: "shift_up i (int8_t (int k)) (probes[Suc k := probes ! k]) ! j =
       (if i < j \<and> j \<le> k then probes[Suc k := probes ! k] ! (j - 1)
        else probes[Suc k := probes ! k] ! j)" .
    have u: "shift_up i (int8_t (int (Suc k))) probes =
               shift_up i (int8_t (int k)) (probes[Suc k := probes ! k])"
      using True Suc.prems(1) shift_up_unfold [of "Suc k" i probes] by simp
    show ?thesis
      unfolding u ih using True Suc.prems(2,3)
      by (auto simp: nth_list_update)
  next
    case False
    have "shift_up i (int8_t (int (Suc k))) probes = probes"
      using False Suc.prems(1) shift_up_unfold [of "Suc k" i probes] by simp
    with False show ?thesis by auto
  qed
qed

text \<open>The array after the insertion at slot i among the first p samples.\<close>

lemma shift_up_insert:
  assumes "i \<le> p" and "p < length probes" and "p \<le> 128"
  shows "(shift_up i (int8_t (int p)) probes)[i := z] =
           take i probes @ z # take (p - i) (drop i probes) @ drop (Suc p) probes"
proof (rule nth_equalityI)
  show "length ((shift_up i (int8_t (int p)) probes)[i := z]) =
        length (take i probes @ z # take (p - i) (drop i probes) @ drop (Suc p) probes)"
    using assms by simp
next
  fix j assume "j < length ((shift_up i (int8_t (int p)) probes)[i := z])"
  then have j: "j < length probes" by simp
  show "(shift_up i (int8_t (int p)) probes)[i := z] ! j =
        (take i probes @ z # take (p - i) (drop i probes) @ drop (Suc p) probes) ! j"
    using assms j
    by (auto simp: nth_list_update shift_up_nth nth_append nth_Cons' min_def)
qed

lemma take_exact: "length xs = n \<Longrightarrow> take n (xs @ ys) = xs"
  by simp

text \<open>The search loop stops at the first slot that holds a larger sample, or at p.\<close>

lemma insert_probe_slot:
  assumes "i \<le> p" and "p < length probes" and "\<forall>k<i. probes ! k \<le> z" and "p \<le> 128"
  shows "\<exists>j. j \<le> p \<and> (\<forall>k<j. probes ! k \<le> z) \<and> (j = p \<or> probes ! j > z)
             \<and> insert_probe i p z probes =
                 take j probes @ z # take (p - j) (drop j probes) @ drop (Suc p) probes"
  using assms
proof (induction i p z probes rule: insert_probe.induct)
  case (1 i p z probes)
  show ?case
  proof (cases "i = p \<or> probes ! i > z")
    case True
    with 1(2) have "insert_probe i p z probes = (shift_up i (int8_t (int p)) probes)[i := z]"
      by (simp add: insert_probe.simps [of i p z probes])
    with 1(2,3,5) have "insert_probe i p z probes =
        take i probes @ z # take (p - i) (drop i probes) @ drop (Suc p) probes"
      by (simp add: shift_up_insert)
    with True 1(2,4) show ?thesis by blast
  next
    case False
    with 1(2) have lt: "i < p" and le: "probes ! i \<le> z" by auto
    from 1(4) le have "\<forall>k<Suc i. probes ! k \<le> z"
      by (auto simp: less_Suc_eq)
    with 1(1) [OF 1(2) False] lt 1(3,5)
    obtain j where "j \<le> p" "\<forall>k<j. probes ! k \<le> z" "j = p \<or> probes ! j > z"
      "insert_probe (Suc i) p z probes =
         take j probes @ z # take (p - j) (drop j probes) @ drop (Suc p) probes"
      by auto
    moreover from False 1(2) have "insert_probe i p z probes = insert_probe (Suc i) p z probes"
      by (simp add: insert_probe.simps [of i p z probes])
    ultimately show ?thesis by auto
  qed
qed

lemma insert_probe_sorted:
  assumes "p < length probes" and "sorted (take p probes)" and "p \<le> 128"
  shows "length (insert_probe 0 p z probes) = length probes"
    and "sorted (take (Suc p) (insert_probe 0 p z probes))"
    and "mset (take (Suc p) (insert_probe 0 p z probes)) = add_mset z (mset (take p probes))"
proof -
  from insert_probe_slot [of 0 p probes z] assms(1,3)
  obtain j where j: "j \<le> p" and small: "\<forall>k<j. probes ! k \<le> z"
    and big: "j = p \<or> probes ! j > z"
    and eq: "insert_probe 0 p z probes =
               take j probes @ z # take (p - j) (drop j probes) @ drop (Suc p) probes"
    by auto
  have split: "take p probes = take j probes @ take (p - j) (drop j probes)"
    using j by (metis le_add_diff_inverse take_add)
  from eq assms(1) j show "length (insert_probe 0 p z probes) = length probes"
    by simp
  have len: "length (take j probes @ z # take (p - j) (drop j probes)) = Suc p"
    using assms(1) j by auto
  have "take (Suc p) ((take j probes @ z # take (p - j) (drop j probes)) @ drop (Suc p) probes) =
               take j probes @ z # take (p - j) (drop j probes)"
    using len by (rule take_exact)
  with eq have pre: "take (Suc p) (insert_probe 0 p z probes) =
               take j probes @ z # take (p - j) (drop j probes)"
    by simp
  show "mset (take (Suc p) (insert_probe 0 p z probes)) = add_mset z (mset (take p probes))"
    by (simp add: pre split)
  have lo: "x \<le> z" if "x \<in> set (take j probes)" for x
    using that small assms(1) j by (auto simp: in_set_conv_nth)
  have hi: "z \<le> y" if "y \<in> set (take (p - j) (drop j probes))" for y
  proof -
    from that obtain k where k: "k < p - j" and y: "y = probes ! (j + k)"
      using assms(1) j by (auto simp: in_set_conv_nth)
    from k big have zj: "z < probes ! j" by auto
    from assms(2) have "take p probes ! j \<le> take p probes ! (j + k)"
      using k assms(1) by (intro sorted_nth_mono) auto
    with k have "probes ! j \<le> probes ! (j + k)" by simp
    with zj y show ?thesis by simp
  qed
  from assms(2) split have s1: "sorted (take j probes)" and s2: "sorted (take (p - j) (drop j probes))"
    and s3: "\<forall>x\<in>set (take j probes). \<forall>y\<in>set (take (p - j) (drop j probes)). x \<le> y"
    by (simp_all add: sorted_append)
  show "sorted (take (Suc p) (insert_probe 0 p z probes))"
    unfolding pre using s1 s2 s3 lo hi by (auto simp: sorted_append)
qed

lemma sorted_samples_sorted:
  assumes "sorted_samples cfg hw sc low p probes s = (Inr probes', s')"
      and "p \<le> TOTAL_PROBING cfg" and "length probes = TOTAL_PROBING cfg"
      and "sorted (take p probes)" and "TOTAL_PROBING cfg \<le> 129"
  shows "sorted probes' \<and> length probes' = TOTAL_PROBING cfg"
  using assms
proof (induction cfg hw sc low p probes s rule: sorted_samples.induct)
  case (1 cfg hw sc low p probes s)
  show ?case
  proof (cases "p < TOTAL_PROBING cfg")
    case False
    with 1(2,3,4,5) show ?thesis
      by (simp add: sorted_samples.simps [of cfg hw sc low p probes s])
  next
    case True
    obtain r s1 where sp: "slow_probe cfg hw sc low s = (r, s1)"
      by (cases "slow_probe cfg hw sc low s")
    show ?thesis
    proof (cases r)
      case (Inl e)
      with True sp 1(2) show ?thesis
        by (simp add: sorted_samples.simps [of cfg hw sc low p probes s])
    next
      case (Inr z)
      let ?s2 = "if p < TOTAL_PROBING cfg - 1
                 then do_blocking_move_to_z (z + Z_CLEARANCE_MULTI_PROBE cfg)
                        (z_probe_fast_mm_s cfg) s1
                 else s1"
      from True sp Inr 1(2)
      have rec: "sorted_samples cfg hw sc low (Suc p) (insert_probe 0 p z probes) ?s2
                   = (Inr probes', s')"
        by (simp add: sorted_samples.simps [of cfg hw sc low p probes s])
      from True 1(4) have pl: "p < length probes" by simp
      from True 1(6) have p8: "p \<le> 128" by simp
      note ins = insert_probe_sorted [OF pl 1(5) p8, of z]
      from 1(1) [OF True sp [symmetric] Inr rec] True ins 1(4,6)
      show ?thesis by simp
    qed
  qed
qed

lemma trim_Suc: "trim probes med (Suc k) r = trim_step probes med (trim probes med k r)"
  by (induction k arbitrary: r) simp_all

text \<open>After k passes k samples are gone and the kept slots are a range inside the array.\<close>

lemma trim_step_cases:
  assumes "trim_step probes med (lo', hi') = (lo, hi)"
  shows "(lo = lo' \<and> hi = hi' - 1) \<or> (lo = lo' + 1 \<and> hi = hi')"
proof (cases "\<bar>probes ! hi' - med\<bar> > \<bar>probes ! lo' - med\<bar>")
  case True
  with assms show ?thesis by (simp add: trim_step_def)
next
  case False
  with assms show ?thesis by (simp add: trim_step_def)
qed

lemma trim_range:
  assumes "k < n" and "trim probes med k (0, n - 1) = (lo, hi)"
  shows "lo \<le> hi \<and> hi < n \<and> hi - lo = n - 1 - k"
  using assms
proof (induction k arbitrary: lo hi)
  case 0
  then show ?case by auto
next
  case (Suc k)
  obtain lo' hi' where prev: "trim probes med k (0, n - 1) = (lo', hi')"
    by (cases "trim probes med k (0, n - 1)")
  from Suc(2) have kn: "k < n" by simp
  from Suc(1) [OF kn prev] have ih: "lo' \<le> hi'" "hi' < n" "hi' - lo' = n - 1 - k"
    by simp_all
  from Suc(3) prev have "trim_step probes med (lo', hi') = (lo, hi)"
    by (simp only: trim_Suc)
  then have "(lo = lo' \<and> hi = hi' - 1) \<or> (lo = lo' + 1 \<and> hi = hi')"
    by (rule trim_step_cases)
  with ih Suc(2) show ?case
    by auto
qed

text \<open>In a sorted array the sample of a range farthest from any value sits at an end.\<close>

lemma farthest_at_end:
  assumes "sorted probes" and "lo \<le> j" and "j \<le> hi" and "hi < length probes"
  shows "\<bar>probes ! j - med\<bar> \<le> \<bar>probes ! dropped probes med (lo, hi) - med\<bar>"
proof -
  from assms have "probes ! lo \<le> probes ! j" "probes ! j \<le> probes ! hi"
    by (auto intro: sorted_nth_mono)
  then show ?thesis
    by (auto simp: dropped_def abs_real_def split: if_splits)
qed

lemma foldl_add: "foldl (\<lambda>acc i. acc + f i) a xs = a + sum_list (map f xs)"
  by (induction xs arbitrary: a) (simp_all add: add.assoc)

lemma sum_kept_sum: "sum_kept probes (lo, hi) = (\<Sum>i = lo..hi. probes ! i)"
proof -
  have "sum_kept probes (lo, hi) = sum_list (map ((!) probes) [lo..<Suc hi])"
    by (simp add: sum_kept_def foldl_add)
  also have "\<dots> = (\<Sum>i\<in>set [lo..<Suc hi]. probes ! i)"
    by (rule interv_sum_list_conv_sum_set_nat)
  also have "set [lo..<Suc hi] = {lo..hi}" by auto
  finally show ?thesis .
qed

lemma median_centre:
  assumes "0 < TOTAL_PROBING cfg"
  shows "median cfg probes =
           (if odd (TOTAL_PROBING cfg) then probes ! (TOTAL_PROBING cfg div 2)
            else (probes ! (TOTAL_PROBING cfg div 2 - 1) + probes ! (TOTAL_PROBING cfg div 2)) / 2)"
proof (cases "odd (TOTAL_PROBING cfg)")
  case True
  then have "(TOTAL_PROBING cfg - 1) div 2 = TOTAL_PROBING cfg div 2"
    by (auto elim!: oddE)
  with True show ?thesis by (simp add: median_def PHALF_def Let_def)
next
  case False
  with assms have "(TOTAL_PROBING cfg - 1) div 2 = TOTAL_PROBING cfg div 2 - 1"
    and "Suc (TOTAL_PROBING cfg div 2 - 1) = TOTAL_PROBING cfg div 2"
    by (auto elim!: evenE)
  with False show ?thesis by (simp add: median_def PHALF_def Let_def)
qed

text \<open>
  C1, as the code has it. In a build with \<^verbatim>\<open>2 < TOTAL_PROBING \<le> 129\<close> and
  \<^verbatim>\<open>EXTRA_PROBING > 0\<close> (and \<^verbatim>\<open>TOTAL_PROBING = MULTIPLE_PROBING + EXTRA_PROBING\<close>; the bound
  129 is the last count whose insertions the \<^verbatim>\<open>int8_t\<close> counter carries out), when the sample
  loop completes,
  the array is sorted; the median is its centre element if the count is odd and the mean of
  the two centre elements if it is even; each of the \<^verbatim>\<open>EXTRA_PROBING\<close> passes removes one end
  of the kept range, the upper end if it is strictly farther from that median and the lower
  end otherwise (so a tie removes the lower index), and the removed sample is at least as
  far from the median as every sample still kept; after the passes \<^verbatim>\<open>MULTIPLE_PROBING\<close>
  contiguous samples are left and \<^verbatim>\<open>run_z_probe\<close> returns their mean.
\<close>

theorem median_trimming:
  assumes "2 < TOTAL_PROBING cfg" and "0 < EXTRA_PROBING cfg"
      and "TOTAL_PROBING cfg = MULTIPLE_PROBING cfg + EXTRA_PROBING cfg"
      and "0 < MULTIPLE_PROBING cfg"
      and "sorted_samples cfg hw sanity_check (z_probe_low_point cfg s) 0
             (replicate (TOTAL_PROBING cfg) 0)
             (if Z_PROBE_FEEDRATE_FAST cfg \<noteq> Z_PROBE_FEEDRATE_SLOW cfg
              then fast_approach cfg hw s else s)
           = (Inr probes, s1)"
      and "k < EXTRA_PROBING cfg"
      and "trim probes (median cfg probes) k (0, TOTAL_PROBING cfg - 1) = (lo, hi)"
      and "TOTAL_PROBING cfg \<le> 129"
  shows "run_z_probe cfg hw sanity_check s = (Height (trimmed_mean cfg probes), s1)
       \<and> sorted probes \<and> length probes = TOTAL_PROBING cfg
       \<and> median cfg probes =
           (if odd (TOTAL_PROBING cfg) then probes ! (TOTAL_PROBING cfg div 2)
            else (probes ! (TOTAL_PROBING cfg div 2 - 1) + probes ! (TOTAL_PROBING cfg div 2)) / 2)
       \<and> lo < hi \<and> hi < TOTAL_PROBING cfg \<and> hi - lo = TOTAL_PROBING cfg - 1 - k
       \<and> trim probes (median cfg probes) (Suc k) (0, TOTAL_PROBING cfg - 1) =
           (if \<bar>probes ! hi - median cfg probes\<bar> > \<bar>probes ! lo - median cfg probes\<bar>
            then (lo, hi - 1) else (lo + 1, hi))
       \<and> dropped probes (median cfg probes) (lo, hi) =
           (if \<bar>probes ! hi - median cfg probes\<bar> > \<bar>probes ! lo - median cfg probes\<bar>
            then hi else lo)
       \<and> (\<forall>j. lo \<le> j \<and> j \<le> hi \<longrightarrow>
              \<bar>probes ! j - median cfg probes\<bar>
                \<le> \<bar>probes ! dropped probes (median cfg probes) (lo, hi) - median cfg probes\<bar>)
       \<and> (\<exists>lo' hi'. kept_range cfg probes = (lo', hi') \<and> lo' \<le> hi' \<and> hi' < TOTAL_PROBING cfg
              \<and> hi' - lo' + 1 = MULTIPLE_PROBING cfg
              \<and> trimmed_mean cfg probes
                   = (\<Sum>i = lo'..hi'. probes ! i) / real (MULTIPLE_PROBING cfg))"
proof -
  let ?T = "TOTAL_PROBING cfg"
  let ?m = "median cfg probes"
  have run: "run_z_probe cfg hw sanity_check s = (Height (trimmed_mean cfg probes), s1)"
    using assms(1,2,5)
    by (simp add: run_z_probe_def run_z_probe_to_def multi_probe_def Let_def)
  have srt: "sorted probes \<and> length probes = ?T"
    using sorted_samples_sorted [OF assms(5)] assms(8) by simp
  have med: "?m = (if odd ?T then probes ! (?T div 2)
                   else (probes ! (?T div 2 - 1) + probes ! (?T div 2)) / 2)"
    using assms(1) by (intro median_centre) simp
  have kT: "k < ?T" using assms(3,4,6) by simp
  have rng: "lo \<le> hi \<and> hi < ?T \<and> hi - lo = ?T - 1 - k"
    using trim_range [OF kT assms(7)] .
  with assms(3,4,6) have lt: "lo < hi" by linarith
  have step: "trim probes ?m (Suc k) (0, ?T - 1) =
           (if \<bar>probes ! hi - ?m\<bar> > \<bar>probes ! lo - ?m\<bar> then (lo, hi - 1) else (lo + 1, hi))"
    by (simp only: trim_Suc assms(7)) (simp add: trim_step_def)
  have drp: "dropped probes ?m (lo, hi) =
           (if \<bar>probes ! hi - ?m\<bar> > \<bar>probes ! lo - ?m\<bar> then hi else lo)"
    by (simp add: dropped_def)
  have far: "\<forall>j. lo \<le> j \<and> j \<le> hi \<longrightarrow>
              \<bar>probes ! j - ?m\<bar> \<le> \<bar>probes ! dropped probes ?m (lo, hi) - ?m\<bar>"
    using srt rng by (auto intro!: farthest_at_end)
  obtain lo' hi' where kr: "kept_range cfg probes = (lo', hi')"
    by (cases "kept_range cfg probes")
  have eT: "EXTRA_PROBING cfg < ?T" using assms(3,4) by simp
  from kr have "trim probes ?m (EXTRA_PROBING cfg) (0, ?T - 1) = (lo', hi')"
    by (simp add: kept_range_def)
  from trim_range [OF eT this]
  have rng': "lo' \<le> hi' \<and> hi' < ?T \<and> hi' - lo' = ?T - 1 - EXTRA_PROBING cfg" .
  with assms(3,4) have cnt: "hi' - lo' + 1 = MULTIPLE_PROBING cfg" by linarith
  have mean: "trimmed_mean cfg probes = (\<Sum>i = lo'..hi'. probes ! i) / real (MULTIPLE_PROBING cfg)"
    by (simp add: trimmed_mean_def kr sum_kept_sum RECIPROCAL_def)
  from rng' cnt mean kr
  have fin: "\<exists>lo' hi'. kept_range cfg probes = (lo', hi') \<and> lo' \<le> hi' \<and> hi' < ?T
              \<and> hi' - lo' + 1 = MULTIPLE_PROBING cfg
              \<and> trimmed_mean cfg probes
                   = (\<Sum>i = lo'..hi'. probes ! i) / real (MULTIPLE_PROBING cfg)"
    by blast
  from run srt med rng lt step drp far fin show ?thesis
    by (intro conjI) (simp_all only: simp_thms)
qed

lemmas sample_defs =
  slow_probe_def try_to_probe_def tare_if_enabled_def probe_down_to_z_def probe_triggered_def
  do_blocking_move_to_z_def jot_def sampled_z_def z_probe_fast_mm_s_def MMM_TO_MMS_def
  BLTOUCH_def flat_bed_def bed_def fixed_build_def bltouch_build_def

lemma five_samples:
  "fst (sorted_samples median_build (flat_bed five_heights) True (- 1 / 2) 0 (replicate 5 0) bed)
     = Inr [0.05, 0.09, 0.10, 0.11, 0.40]"
  by (simp add: sorted_samples.simps insert_probe.simps shift_up.simps int8_t_def sample_defs
        median_build_def five_heights_def Let_def numeral_nat)

lemma three_samples:
  "fst (sorted_samples tie_build (flat_bed three_heights) True (- 1 / 2) 0 (replicate 3 0) bed)
     = Inr [0, 1, 2]"
  by (simp add: sorted_samples.simps insert_probe.simps shift_up.simps int8_t_def sample_defs
        tie_build_def three_heights_def Let_def numeral_nat)

lemma run_z_probe_trimmed:
  assumes "2 < TOTAL_PROBING cfg" and "0 < EXTRA_PROBING cfg"
      and "fst (sorted_samples cfg hw sanity_check (z_probe_low_point cfg s) 0
             (replicate (TOTAL_PROBING cfg) 0)
             (if Z_PROBE_FEEDRATE_FAST cfg \<noteq> Z_PROBE_FEEDRATE_SLOW cfg
              then fast_approach cfg hw s else s))
           = Inr probes"
  shows "fst (run_z_probe cfg hw sanity_check s) = Height (trimmed_mean cfg probes)"
  using assms
  by (simp add: run_z_probe_def run_z_probe_to_def multi_probe_def Let_def split_def)

lemma no_fast_approach:
  "fast_approach median_build hw bed = bed" "fast_approach tie_build hw bed = bed"
  by (simp_all add: fast_approach_def median_build_def tie_build_def fixed_build_def
        bltouch_build_def bed_def)

lemma low_point_bed:
  "z_probe_low_point median_build bed = - 1 / 2" "z_probe_low_point tie_build bed = - 1 / 2"
  by (simp_all add: z_probe_low_point_def median_build_def tie_build_def fixed_build_def
        bltouch_build_def bed_def)

text \<open>
  Scenario S3: the sorted samples are 0.05, 0.09, 0.10, 0.11, 0.40; the median is 0.10, the
  pass drops index 4 (0.40) and the result is 0.0875.
\<close>

theorem median_trimming_witness:
  "2 < TOTAL_PROBING median_build \<and> TOTAL_PROBING median_build \<le> 129
   \<and> 0 < EXTRA_PROBING median_build
   \<and> TOTAL_PROBING median_build = MULTIPLE_PROBING median_build + EXTRA_PROBING median_build
   \<and> 0 < MULTIPLE_PROBING median_build
   \<and> fst (sorted_samples median_build (flat_bed five_heights) True
             (z_probe_low_point median_build bed) 0 (replicate (TOTAL_PROBING median_build) 0) bed)
        = Inr [0.05, 0.09, 0.10, 0.11, 0.40]
   \<and> median median_build [0.05, 0.09, 0.10, 0.11, 0.40] = 0.10
   \<and> dropped [0.05, 0.09, 0.10, 0.11, 0.40] 0.10 (0, 4) = 4
   \<and> kept_range median_build [0.05, 0.09, 0.10, 0.11, 0.40] = (0, 3)
   \<and> fst (run_z_probe median_build (flat_bed five_heights) True bed) = Height 0.0875"
proof -
  let ?hw = "flat_bed five_heights"
  let ?ps = "[0.05, 0.09, 0.10, 0.11, 0.40] :: real list"
  let ?run = "sorted_samples median_build ?hw True (z_probe_low_point median_build bed) 0
                (replicate (TOTAL_PROBING median_build) 0)
                (if Z_PROBE_FEEDRATE_FAST median_build \<noteq> Z_PROBE_FEEDRATE_SLOW median_build
                 then fast_approach median_build ?hw bed else bed)"
  have c: "2 < TOTAL_PROBING median_build" "0 < EXTRA_PROBING median_build"
    "TOTAL_PROBING median_build = MULTIPLE_PROBING median_build + EXTRA_PROBING median_build"
    "0 < MULTIPLE_PROBING median_build"
    by (simp_all add: median_build_def)
  have t: "TOTAL_PROBING median_build = 5" "EXTRA_PROBING median_build = 1"
    "MULTIPLE_PROBING median_build = 4"
    by (simp_all add: median_build_def)
  have f0: "fst (sorted_samples median_build ?hw True (z_probe_low_point median_build bed) 0
                 (replicate (TOTAL_PROBING median_build) 0) bed) = Inr ?ps"
    using five_samples by (simp only: low_point_bed t)
  then have f: "fst ?run = Inr ?ps"
    by (simp only: no_fast_approach if_cancel)
  then have r: "?run = (Inr ?ps, snd ?run)"
    by (metis prod.collapse)
  have k: "(0::nat) < EXTRA_PROBING median_build" by (simp add: median_build_def)
  have m: "median median_build ?ps = 0.10"
    by (simp add: median_def PHALF_def t)
  have tr: "trim ?ps (median median_build ?ps) 0 (0, TOTAL_PROBING median_build - 1) = (0, 4)"
    by (simp add: t)
  have d: "dropped ?ps 0.10 (0, 4) = 4"
    by (simp add: dropped_def)
  have kr: "kept_range median_build ?ps = (0, 3)"
    using m by (simp add: kept_range_def trim_step_def t)
  have mean: "trimmed_mean median_build ?ps = 0.0875"
    using kr by (simp add: trimmed_mean_def sum_kept_def RECIPROCAL_def t numeral_nat)
  have b: "TOTAL_PROBING median_build \<le> 129" by (simp add: t)
  have res: "fst (run_z_probe median_build ?hw True bed) = Height 0.0875"
    using conjunct1 [OF median_trimming [OF c r k tr b]] mean
    by (simp only: fst_conv)
  from c(1) b c(2-) f0 m d kr res show ?thesis
    by (intro conjI)
qed

text \<open>
  C1 as stated breaks ties in favour of the higher index. With the samples 0, 1, 2 both ends
  are at distance 1 from the median 1; the code drops index 0, keeps 1 and 2 and returns
  1.5, where the rule of the claim would drop index 2 and keep 0 and 1.
\<close>

theorem median_trimming_counterexample:
  "fst (sorted_samples tie_build (flat_bed three_heights) True
          (z_probe_low_point tie_build bed) 0 (replicate (TOTAL_PROBING tie_build) 0) bed)
     = Inr [0, 1, 2]
   \<and> median tie_build [0, 1, 2] = 1
   \<and> \<bar>[0, 1, 2] ! 2 - median tie_build [0, 1, 2]\<bar> = \<bar>[0, 1, 2] ! 0 - median tie_build [0, 1, 2]\<bar>
   \<and> kept_range tie_build [0, 1, 2] = (1, 2)
   \<and> trim_as_claimed [0, 1, 2] (median tie_build [0, 1, 2]) (EXTRA_PROBING tie_build)
        (0, TOTAL_PROBING tie_build - 1) = (0, 1)
   \<and> fst (run_z_probe tie_build (flat_bed three_heights) True bed) = Height (3 / 2)"
proof -
  have t: "TOTAL_PROBING tie_build = 3" "EXTRA_PROBING tie_build = 1"
    "MULTIPLE_PROBING tie_build = 2"
    by (simp_all add: tie_build_def)
  have f: "fst (sorted_samples tie_build (flat_bed three_heights) True
          (z_probe_low_point tie_build bed) 0 (replicate (TOTAL_PROBING tie_build) 0) bed)
     = Inr [0, 1, 2]"
    using three_samples by (simp add: low_point_bed t)
  have m: "median tie_build [0, 1, 2] = 1"
    by (simp add: median_def PHALF_def t)
  have kr: "kept_range tie_build [0, 1, 2] = (1, 2)"
    using m by (simp add: kept_range_def trim_step_def t)
  have cl: "trim_as_claimed [0, 1, 2] (median tie_build [0, 1, 2]) (EXTRA_PROBING tie_build)
        (0, TOTAL_PROBING tie_build - 1) = (0, 1)"
    using m by (simp add: trim_step_as_claimed_def t)
  have mean: "trimmed_mean tie_build [0, 1, 2] = 3 / 2"
    using kr by (simp add: trimmed_mean_def sum_kept_def RECIPROCAL_def t numeral_nat)
  have "fst (run_z_probe tie_build (flat_bed three_heights) True bed)
          = Height (trimmed_mean tie_build [0, 1, 2])"
  proof (rule run_z_probe_trimmed)
    show "2 < TOTAL_PROBING tie_build" "0 < EXTRA_PROBING tie_build"
      by (simp_all add: t)
    show "fst (sorted_samples tie_build (flat_bed three_heights) True
                 (z_probe_low_point tie_build bed) 0 (replicate (TOTAL_PROBING tie_build) 0)
                 (if Z_PROBE_FEEDRATE_FAST tie_build \<noteq> Z_PROBE_FEEDRATE_SLOW tie_build
                  then fast_approach tie_build (flat_bed three_heights) bed else bed))
            = Inr [0, 1, 2]"
      using f by (simp only: no_fast_approach if_cancel)
  qed
  with mean have res: "fst (run_z_probe tie_build (flat_bed three_heights) True bed)
          = Height (3 / 2)"
    by (simp only:)
  have tie: "\<bar>[0, 1, 2] ! 2 - median tie_build [0, 1, 2]\<bar>
               = \<bar>[0, 1, 2] ! 0 - median tie_build [0, 1, 2]\<bar>"
    using m by simp
  from f m tie kr cl res show ?thesis
    by (intro conjI)
qed

end
